theory Spec2Isabelle
  imports Complex_Main "HOL-Library.Product_Lexorder"
begin

section \<open>Exceptions and dates\<close>

text \<open>
  Every exception the modelled functions raise is a value of \<open>error\<close>; a function that can
  raise returns \<open>error + 'a\<close> (\<open>Inl\<close> the exception).  A function that raises after it
  has already written to its object or to the database returns the outcome paired with the
  object or database it leaves behind.
\<close>

datatype error =
    TransitionNotAllowed
  | ValidationError string
  | MoveResourceException string
  | DatabaseError
  | MultipleObjectsReturned
  | DoesNotExist
  | AttributeError
  | TypeError
  | DivisionByZero
  | InvalidOperation

text \<open>
  A date is (year, month, day); a datetime is a date and the second of the day.  Both are
  ordered lexicographically, which is the order of the calendar.
\<close>

type_synonym date = "nat \<times> nat \<times> nat"
type_synonym datetime = "date \<times> nat"

section \<open>django-fsm transitions\<close>

text \<open>
  \<open>@transition(field=state, source=..., target=...)\<close>: the decorated method raises
  \<open>TransitionNotAllowed\<close> and touches nothing when the current state is not among the
  sources; otherwise the body runs and the state field is set to the target afterwards.
  \<open>source='*'\<close> is \<open>AnyState\<close>.
\<close>

datatype 's fsm_source = AnyState | States "'s list"

fun has_transition :: "'s fsm_source \<Rightarrow> 's \<Rightarrow> bool" where
  "has_transition AnyState s = True"
| "has_transition (States ss) s = (s \<in> set ss)"

section \<open>OrderItem (marketplace/models.py)\<close>

datatype request_type = CREATE | UPDATE | TERMINATE

datatype oi_state =
  OI_PENDING | OI_EXECUTING | OI_DONE | OI_ERRED | OI_TERMINATED | OI_TERMINATING

text \<open>
  An order item.  \<open>oi_offering_type\<close> is \<open>order_item.offering.type\<close>; \<open>oi_resource\<close> is
  the related resource, if any, as the item reaches it: its primary key and
  \<open>order_item.resource.offering.type\<close>.
\<close>

record order_item =
  oi_id :: nat
  oi_order :: nat
  oi_offering_type :: string
  oi_resource :: "(nat \<times> string) option"
  oi_type :: request_type
  oi_state :: oi_state
  oi_activated :: "datetime option"
  oi_error_message :: string
  oi_error_traceback :: string

definition TERMINAL_STATES :: "oi_state set" where
  "TERMINAL_STATES = {OI_DONE, OI_ERRED, OI_TERMINATED}"

text \<open>
  \<open>save(update_fields=...)\<close> and \<open>queryset.update(...)\<close> are SQL updates: the rows that
  satisfy the condition are rewritten, every other row is left as it is.
\<close>

definition update_rows :: "('a \<Rightarrow> bool) \<Rightarrow> ('a \<Rightarrow> 'a) \<Rightarrow> 'a list \<Rightarrow> 'a list" where
  "update_rows cond change rows = map (\<lambda>row. if cond row then change row else row) rows"

text \<open>
  \<open>order_item.save()\<close> on the table of order items: the row with the item's primary key
  is overwritten, and inserted when there is none.
\<close>

definition save_order_item_row :: "order_item \<Rightarrow> order_item list \<Rightarrow> order_item list" where
  "save_order_item_row item rows =
     (if oi_id item \<in> set (map oi_id rows)
      then update_rows (\<lambda>row. oi_id row = oi_id item) (\<lambda>row. item) rows
      else rows @ [item])"

definition oi_transition ::
  "oi_state fsm_source \<Rightarrow> oi_state \<Rightarrow> (order_item \<Rightarrow> order_item) \<Rightarrow> order_item
    \<Rightarrow> (error + unit) \<times> order_item" where
  "oi_transition source target body item =
     (if has_transition source (oi_state item)
      then (Inr (), (body item)\<lparr>oi_state := target\<rparr>)
      else (Inl TransitionNotAllowed, item))"

definition set_state_executing :: "order_item \<Rightarrow> (error + unit) \<times> order_item" where
  "set_state_executing = oi_transition (States [OI_PENDING, OI_ERRED]) OI_EXECUTING (\<lambda>i. i)"

text \<open>
  \<open>set_state_done\<close> stamps the activation time and saves the row inside the method body,
  that is before the state field is set: the saved row still carries the old state.
\<close>

definition set_state_done ::
  "datetime \<Rightarrow> order_item list \<Rightarrow> order_item
    \<Rightarrow> ((error + unit) \<times> order_item) \<times> order_item list" where
  "set_state_done now rows item =
     (oi_transition (States [OI_EXECUTING]) OI_DONE (\<lambda>i. i\<lparr>oi_activated := Some now\<rparr>) item,
      if has_transition (States [OI_EXECUTING]) (oi_state item)
      then save_order_item_row (item\<lparr>oi_activated := Some now\<rparr>) rows else rows)"

definition set_state_erred :: "order_item \<Rightarrow> (error + unit) \<times> order_item" where
  "set_state_erred = oi_transition AnyState OI_ERRED (\<lambda>i. i)"

definition set_state_terminated :: "order_item \<Rightarrow> (error + unit) \<times> order_item" where
  "set_state_terminated = oi_transition AnyState OI_TERMINATED (\<lambda>i. i)"

definition set_state_terminating :: "order_item \<Rightarrow> (error + unit) \<times> order_item" where
  "set_state_terminating =
     oi_transition (States [OI_PENDING, OI_EXECUTING]) OI_TERMINATING (\<lambda>i. i)"

text \<open>The five transition methods of an order item, as one attempt on the in-memory item.\<close>

datatype oi_method =
  SetStateExecuting | SetStateDone datetime | SetStateErred | SetStateTerminated
  | SetStateTerminating

fun oi_attempt :: "oi_method \<Rightarrow> order_item \<Rightarrow> (error + unit) \<times> order_item" where
  "oi_attempt SetStateExecuting item = set_state_executing item"
| "oi_attempt (SetStateDone now) item = fst (set_state_done now [] item)"
| "oi_attempt SetStateErred item = set_state_erred item"
| "oi_attempt SetStateTerminated item = set_state_terminated item"
| "oi_attempt SetStateTerminating item = set_state_terminating item"

text \<open>The adjacency list as the specification documents it.\<close>

definition documented_adjacency :: "(oi_state \<times> oi_state) set" where
  "documented_adjacency =
     {(OI_PENDING, OI_EXECUTING), (OI_ERRED, OI_EXECUTING), (OI_EXECUTING, OI_DONE),
      (OI_PENDING, OI_TERMINATING), (OI_EXECUTING, OI_TERMINATING),
      (OI_TERMINATING, OI_TERMINATED)}"

definition item0 :: order_item where
  "item0 = \<lparr>oi_id = 1, oi_order = 1, oi_offering_type = ''Test.Type'', oi_resource = None,
            oi_type = CREATE, oi_state = OI_PENDING, oi_activated = None,
            oi_error_message = [], oi_error_traceback = []\<rparr>"

section \<open>Offerings and their components (marketplace/models.py)\<close>

datatype billing_type = FIXED | USAGE | ONE_TIME | ON_PLAN_SWITCH | LIMIT

text \<open>
  \<open>limit_period\<close> is a nullable, blankable character field: \<open>None\<close>, the empty string,
  \<open>''month''\<close> or \<open>''total''\<close>.  The integer fields are nullable.
\<close>

record offering_component =
  oc_id :: nat
  oc_type :: string
  oc_billing_type :: billing_type
  oc_parent :: "nat option"
  oc_limit_period :: "string option"
  oc_limit_amount :: "int option"
  oc_max_value :: "int option"
  oc_min_value :: "int option"

text \<open>
  An offering with \<open>offering.components.all()\<close> in the order the query returns it.  The
  model's \<open>unique_together = ('type', 'offering')\<close> makes the types of one offering's
  components distinct; the functions below do not rely on it.
\<close>

record offering =
  off_id :: nat
  off_type :: string
  off_components :: "offering_component list"

text \<open>Python truthiness of a nullable integer: \<open>None\<close> and 0 are false.\<close>

fun truthy :: "int option \<Rightarrow> bool" where
  "truthy None = False"
| "truthy (Some n) = (n \<noteq> 0)"

text \<open>A dict comprehension over a list of pairs: a later pair with the same key wins.\<close>

definition dict_of :: "('k \<times> 'v) list \<Rightarrow> ('k \<rightharpoonup> 'v)" where
  "dict_of kvs = map_of (rev kvs)"


section \<open>validate_limits (marketplace/utils.py)\<close>

text \<open>
  The loop over \<open>limits.items()\<close>, after the two guards.  \<open>limits\<close> is the dict as the
  list of its items.
\<close>

fun check_limit_values ::
  "(string \<rightharpoonup> offering_component) \<Rightarrow> (string \<times> int) list \<Rightarrow> error + unit" where
  "check_limit_values components_map [] = Inr ()"
| "check_limit_values components_map ((key, value) # rest) =
     (case components_map key of
        None \<Rightarrow> check_limit_values components_map rest
      | Some component \<Rightarrow>
          if truthy (oc_max_value component) \<and> value > the (oc_max_value component)
          then Inl (ValidationError ''The limit %s value cannot be more than %s.'')
          else if truthy (oc_min_value component) \<and> value < the (oc_min_value component)
          then Inl (ValidationError ''The limit %s value cannot be less than %s.'')
          else check_limit_values components_map rest)"

text \<open>
  \<open>plugins.manager.can_update_limits\<close> is the plugin registry's answer for an offering
  type; the registry is not part of the marketplace core and is a parameter.
\<close>

definition validate_limits ::
  "(string \<Rightarrow> bool) \<Rightarrow> (string \<times> int) list \<Rightarrow> offering \<Rightarrow> error + unit" where
  "validate_limits can_update_limits limits offering =
     (if \<not> can_update_limits (off_type offering)
      then Inl (ValidationError ''Limits update is not supported for this resource.'')
      else
        let valid_component_types =
              set (map oc_type
                (filter (\<lambda>c. oc_billing_type c = LIMIT) (off_components offering)));
            invalid_types = set (map fst limits) - valid_component_types
        in if invalid_types \<noteq> {}
           then Inl (ValidationError ''Invalid types: %s'')
           else
             let components_map =
                   dict_of (map (\<lambda>component. (oc_type component, component))
                     (filter (\<lambda>c. oc_type c \<in> valid_component_types)
                        (off_components offering)))
             in check_limit_values components_map limits)"

definition cores_component :: offering_component where
  "cores_component =
     \<lparr>oc_id = 1, oc_type = ''cores'', oc_billing_type = LIMIT, oc_parent = None,
      oc_limit_period = None, oc_limit_amount = None, oc_max_value = Some 16,
      oc_min_value = Some 0\<rparr>"

definition vm_basic :: offering where
  "vm_basic = \<lparr>off_id = 1, off_type = ''vm-basic'', off_components = [cores_component]\<rparr>"

section \<open>Reported usage and validate_amount (marketplace/models.py)\<close>

text \<open>
  A \<open>ComponentUsage\<close> row: \<open>date\<close> is the timestamp of the report (a DateTimeField),
  \<open>billing_period\<close> the first day of the month it is billed in (a DateField).  Foreign
  keys are primary keys of the rows they point to.
\<close>

record component_usage =
  cu_id :: nat
  cu_resource :: nat
  cu_component :: nat
  cu_usage :: int
  cu_date :: datetime
  cu_plan_period :: "nat option"
  cu_billing_period :: date

text \<open>
  Modelled from the spec: \<open>core_utils.month_start\<close> (waldur_core/core/utils.py is not
  under src/) gives the start of the billing month of its argument, the first instant of
  the first day of that month.
\<close>

fun month_start :: "datetime \<Rightarrow> datetime" where
  "month_start ((year, month, day), second) = ((year, month, 1), 0)"

text \<open>Truthiness of a nullable string: \<open>None\<close> and the empty string are false.\<close>

fun truthy_str :: "string option \<Rightarrow> bool" where
  "truthy_str None = False"
| "truthy_str (Some s) = (s \<noteq> [])"

definition MONTH :: string where "MONTH = ''month''"
definition TOTAL :: string where "TOTAL = ''total''"

text \<open>
  \<open>OfferingComponent.validate_amount(self, resource, amount, date)\<close> over the table of
  usage rows.  \<open>aggregate(Sum('usage'))['usage__sum'] or 0\<close> is the sum of the column,
  0 when no row is selected.
\<close>

definition validate_amount ::
  "component_usage list \<Rightarrow> offering_component \<Rightarrow> nat \<Rightarrow> int \<Rightarrow> datetime \<Rightarrow> error + unit" where
  "validate_amount table self resource amount date =
     (if \<not> truthy_str (oc_limit_period self) \<or> \<not> truthy (oc_limit_amount self)
      then Inr ()
      else
        let usages =
              filter (\<lambda>u. cu_resource u = resource \<and> cu_component u = oc_id self) table;
            usages =
              (if oc_limit_period self = Some MONTH
               then filter (\<lambda>u. cu_date u = month_start date) usages
               else usages);
            total = sum_list (map cu_usage usages)
        in if total + amount > the (oc_limit_amount self)
           then Inl (ValidationError ''Total amount exceeds limit. Total amount: %s, limit: %s.'')
           else Inr ())"

text \<open>
  A component capped at 100 a month, and a report of 60 made on 15 January 2024 at 10:00
  for resource 1, billed in January 2024.
\<close>

definition monthly_component :: offering_component where
  "monthly_component =
     \<lparr>oc_id = 7, oc_type = ''cpu_hours'', oc_billing_type = USAGE, oc_parent = None,
      oc_limit_period = Some MONTH, oc_limit_amount = Some 100, oc_max_value = None,
      oc_min_value = None\<rparr>"

definition january_report :: component_usage where
  "january_report =
     \<lparr>cu_id = 1, cu_resource = 1, cu_component = 7, cu_usage = 60,
      cu_date = ((2024, 1, 15), 36000), cu_plan_period = None,
      cu_billing_period = (2024, 1, 1)\<rparr>"

section \<open>Resources and the expiry sweep (marketplace/models.py, tasks.py, utils.py)\<close>

datatype resource_state =
  R_CREATING | R_OK | R_ERRED | R_UPDATING | R_TERMINATING | R_TERMINATED

record resource =
  r_id :: nat
  r_project :: nat
  r_state :: resource_state
  r_end_date :: "date option"
  r_scope :: "nat option"

text \<open>
  The queryset of \<open>terminate_resource_if_its_end_date_has_been_reached\<close>:
  \<open>exclude(end_date__isnull=True, state__in=(TERMINATED, TERMINATING))\<close> drops the rows
  that satisfy both conditions together (the lookups of one \<open>exclude\<close> call are joined
  by AND under a single NOT); \<open>filter(end_date__lte=today)\<close> keeps the rows whose end
  date is set and not after today.
\<close>

definition expired_resources :: "date \<Rightarrow> resource list \<Rightarrow> resource list" where
  "expired_resources today resources =
     filter (\<lambda>r. case r_end_date r of None \<Rightarrow> False | Some end_date \<Rightarrow> end_date \<le> today)
       (filter (\<lambda>r. \<not> (r_end_date r = None \<and> r_state r \<in> {R_TERMINATED, R_TERMINATING}))
          resources)"

text \<open>
  \<open>schedule_resources_termination\<close>: without resources or without the system robot
  account nothing is requested; otherwise the terminate action of the resource view is
  requested for each resource in turn, as the robot.  The view (marketplace/views.py) is a
  parameter: it takes the database, the user and the resource and gives the response's
  status code and the database it leaves.  The result is the database and the resources
  whose request did not answer 200, which the source logs.
\<close>

fun request_terminations ::
  "('db \<Rightarrow> nat \<Rightarrow> resource \<Rightarrow> nat \<times> 'db) \<Rightarrow> nat \<Rightarrow> resource list \<Rightarrow> 'db \<Rightarrow> 'db \<times> nat list" where
  "request_terminations view user [] db = (db, [])"
| "request_terminations view user (resource # rest) db =
     (let (status_code, db1) = view db user resource;
          (db2, failed) = request_terminations view user rest db1
      in (db2, if status_code \<noteq> 200 then r_id resource # failed else failed))"

definition schedule_resources_termination ::
  "('db \<Rightarrow> nat \<Rightarrow> resource \<Rightarrow> nat \<times> 'db) \<Rightarrow> nat option \<Rightarrow> resource list \<Rightarrow> 'db \<Rightarrow> 'db \<times> nat list" where
  "schedule_resources_termination view system_robot resources db =
     (if resources = [] then (db, [])
      else case system_robot of
             None \<Rightarrow> (db, [])
           | Some user \<Rightarrow> request_terminations view user resources db)"

definition terminate_resource_if_its_end_date_has_been_reached ::
  "('db \<Rightarrow> nat \<Rightarrow> resource \<Rightarrow> nat \<times> 'db) \<Rightarrow> nat option \<Rightarrow> date \<Rightarrow> resource list \<Rightarrow> 'db
    \<Rightarrow> 'db \<times> nat list" where
  "terminate_resource_if_its_end_date_has_been_reached view system_robot today resources db =
     schedule_resources_termination view system_robot (expired_resources today resources) db"

text \<open>A resource that was terminated already and whose end date, 1 January 2024, has passed.\<close>

definition terminated_resource :: resource where
  "terminated_resource =
     \<lparr>r_id = 3, r_project = 1, r_state = R_TERMINATED, r_end_date = Some (2024, 1, 1),
      r_scope = None\<rparr>"

section \<open>Plans and cost estimates (marketplace/models.py)\<close>

text \<open>
  Prices are Python \<open>Decimal\<close>s; they are modelled as exact rationals, so the rounding of
  the decimal context (28 significant digits) is not part of the model.  A plan component
  points to an offering component through a nullable foreign key.
\<close>

record plan_component =
  pc_id :: nat
  pc_component :: "offering_component option"
  pc_amount :: nat
  pc_price :: rat

record plan =
  plan_id :: nat
  plan_unit_price :: rat
  plan_offering :: offering
  plan_components :: "plan_component list"


text \<open>\<open>d.get(key, default)\<close>.\<close>

definition dict_get :: "('k \<rightharpoonup> 'v) \<Rightarrow> 'k \<Rightarrow> 'v \<Rightarrow> 'v" where
  "dict_get d key dflt = (case d key of None \<Rightarrow> dflt | Some v \<Rightarrow> v)"























section \<open>The database\<close>

text \<open>
  The tables the modelled functions read and write, each as the list of its rows in the
  order a query without explicit ordering returns them.  A foreign key is the primary key
  of the row it points to.
\<close>

record customer =
  c_id :: nat
  c_blocked :: bool

record project =
  p_id :: nat
  p_customer :: customer
  p_name :: string
  p_uuid :: string

datatype order_state =
  O_REQUESTED_FOR_APPROVAL | O_EXECUTING | O_DONE | O_TERMINATED | O_ERRED | O_REJECTED

record order =
  o_id :: nat
  o_project :: nat
  o_state :: order_state
  o_approved_by :: "nat option"
  o_approved_at :: "datetime option"

text \<open>
  The backend object a resource points to through its generic foreign key, service
  settings with their own scope, and the scope and project columns of the offering table.
\<close>

record scope =
  s_id :: nat
  s_project :: nat

record service_settings =
  ss_id :: nat
  ss_scope :: "nat option"

record offering_row =
  ofr_id :: nat
  ofr_scope :: "nat option"
  ofr_project :: "nat option"

text \<open>
  Modelled from the spec: the invoice and invoice item models (invoices/models.py) are
  not under src/.  An invoice belongs to one customer and one month and is in a state,
  of which only PENDING lets items be moved; it carries the current cost of its items.
  An invoice item records its invoice, resource and project, the project's name and uuid,
  its quantity, article code and price, and \<open>details.get('plan_component_id')\<close>.
\<close>

datatype invoice_state = INV_PENDING | INV_CREATED | INV_PAID | INV_CANCELED

record invoice =
  inv_id :: nat
  inv_customer :: nat
  inv_year :: nat
  inv_month :: nat
  inv_state :: invoice_state
  inv_current_cost :: rat

record invoice_item =
  ii_id :: nat
  ii_invoice :: nat
  ii_resource :: "nat option"
  ii_project :: "nat option"
  ii_project_name :: string
  ii_project_uuid :: string
  ii_article_code :: string
  ii_quantity :: int
  ii_price :: rat
  ii_plan_component_id :: "nat option"

record db =
  db_resources :: "resource list"
  db_scopes :: "scope list"
  db_service_settings :: "service_settings list"
  db_offerings :: "offering_row list"
  db_orders :: "order list"
  db_order_items :: "order_item list"
  db_invoices :: "invoice list"
  db_invoice_items :: "invoice_item list"
  db_plan_components :: "plan_component list"
  db_usages :: "component_usage list"

definition empty_db :: db where
  "empty_db =
     \<lparr>db_resources = [], db_scopes = [], db_service_settings = [], db_offerings = [],
      db_orders = [], db_order_items = [], db_invoices = [], db_invoice_items = [],
      db_plan_components = [], db_usages = []\<rparr>"

section \<open>Editing an invoice item (invoices/serializers.py)\<close>









definition january_invoice :: invoice where
  "january_invoice =
     \<lparr>inv_id = 1, inv_customer = 1, inv_year = 2024, inv_month = 1, inv_state = INV_PENDING,
      inv_current_cost = 0\<rparr>"

definition usage_item :: invoice_item where
  "usage_item =
     \<lparr>ii_id = 1, ii_invoice = 1, ii_resource = Some 1, ii_project = Some 1,
      ii_project_name = ''alpha'', ii_project_uuid = ''a1'', ii_article_code = [],
      ii_quantity = 60, ii_price = 180, ii_plan_component_id = Some 4\<rparr>"



section \<open>Usage roll-up per category component (marketplace/tasks.py)\<close>

text \<open>
  The scope of a roll-up is a model instance: a project, a customer, or an instance of
  another model (its model name and primary key).  Its content type and primary key
  identify the rows of \<open>CategoryComponentUsage\<close> that belong to it.
\<close>

datatype scope_ref = ProjectScope nat | CustomerScope nat | OtherScope string nat

record plan_period =
  pp_id :: nat
  pp_resource :: nat
  pp_plan :: nat
  pp_start :: "datetime option"
  pp_end :: "datetime option"

text \<open>The tables the two aggregates read.\<close>

record usage_data =
  ud_usages :: "component_usage list"
  ud_plan_periods :: "plan_period list"
  ud_components :: "offering_component list"
  ud_resources :: "resource list"
  ud_projects :: "project list"
  ud_plans :: "plan list"

text \<open>The joins \<open>component__parent\<close>, \<open>resource__project\<close> and \<open>resource__project__customer\<close>.\<close>

definition component_parent :: "usage_data \<Rightarrow> nat \<Rightarrow> nat option" where
  "component_parent ud component =
     (case find (\<lambda>c. oc_id c = component) (ud_components ud) of
        None \<Rightarrow> None
      | Some c \<Rightarrow> oc_parent c)"

definition resource_project :: "usage_data \<Rightarrow> nat \<Rightarrow> nat option" where
  "resource_project ud resource =
     map_option r_project (find (\<lambda>r. r_id r = resource) (ud_resources ud))"

definition resource_customer :: "usage_data \<Rightarrow> nat \<Rightarrow> nat option" where
  "resource_customer ud resource =
     (case resource_project ud resource of
        None \<Rightarrow> None
      | Some project \<Rightarrow>
          map_option (\<lambda>p. c_id (p_customer p)) (find (\<lambda>p. p_id p = project) (ud_projects ud)))"

text \<open>
  \<open>filter_aggregate_by_scope\<close>, as the condition it adds on the resource of a row: none
  for a scope that is neither a project nor a customer.
\<close>

fun filter_aggregate_by_scope :: "usage_data \<Rightarrow> scope_ref \<Rightarrow> nat \<Rightarrow> bool" where
  "filter_aggregate_by_scope ud (ProjectScope project) resource =
     (resource_project ud resource = Some project)"
| "filter_aggregate_by_scope ud (CustomerScope customer) resource =
     (resource_customer ud resource = Some customer)"
| "filter_aggregate_by_scope ud (OtherScope model pk) resource = True"

text \<open>
  \<open>values(key).annotate(total=Sum(column))\<close>: one row per key with the SQL sum of the
  column over the group, which skips NULLs and is NULL when nothing is left.
\<close>

definition sql_sum :: "int option list \<Rightarrow> int option" where
  "sql_sum values =
     (if List.map_filter id values = [] then None
      else Some (sum_list (List.map_filter id values)))"

definition group_sum :: "('k \<times> int option) list \<Rightarrow> ('k \<times> int option) list" where
  "group_sum rows =
     map (\<lambda>key. (key, sql_sum (map snd (filter (\<lambda>row. fst row = key) rows))))
       (remdups (map fst rows))"

definition aggregate_reported_usage ::
  "usage_data \<Rightarrow> datetime \<Rightarrow> datetime \<Rightarrow> scope_ref \<Rightarrow> (nat \<times> int option) list" where
  "aggregate_reported_usage ud start end scope =
     (let queryset =
            filter (\<lambda>u. cu_date u \<ge> start \<and> cu_date u \<le> end
                       \<and> component_parent ud (cu_component u) \<noteq> None)
              (ud_usages ud);
          queryset = filter (\<lambda>u. filter_aggregate_by_scope ud scope (cu_resource u)) queryset
      in group_sum
           (map (\<lambda>u. (the (component_parent ud (cu_component u)), Some (cu_usage u)))
              queryset))"

text \<open>
  The rows one plan period contributes to the fixed aggregate: one per component of its
  plan, keyed by the parent of the component's offering component, and a single row
  without key and amount for a plan that has no component.
\<close>

definition plan_period_rows :: "usage_data \<Rightarrow> plan_period \<Rightarrow> (nat option \<times> int option) list" where
  "plan_period_rows ud period =
     (case find (\<lambda>p. plan_id p = pp_plan period) (ud_plans ud) of
        None \<Rightarrow> []
      | Some plan \<Rightarrow>
          if plan_components plan = [] then [(None, None)]
          else map (\<lambda>pc. (case pc_component pc of None \<Rightarrow> None | Some c \<Rightarrow> oc_parent c,
                          Some (int (pc_amount pc))))
                 (plan_components plan))"

text \<open>A comparison with a NULL column is not true.\<close>

definition null_ge :: "datetime option \<Rightarrow> datetime \<Rightarrow> bool" where
  "null_ge column bound = (case column of None \<Rightarrow> False | Some value \<Rightarrow> value \<ge> bound)"

definition null_le :: "datetime option \<Rightarrow> datetime \<Rightarrow> bool" where
  "null_le column bound = (case column of None \<Rightarrow> False | Some value \<Rightarrow> value \<le> bound)"

definition aggregate_fixed_usage ::
  "usage_data \<Rightarrow> datetime \<Rightarrow> datetime \<Rightarrow> scope_ref \<Rightarrow> (nat option \<times> int option) list" where
  "aggregate_fixed_usage ud start end scope =
     (let queryset =
            filter (\<lambda>p. (null_ge (pp_start p) start \<and> null_le (pp_end p) end)
                       \<or> pp_end p = None
                       \<or> (null_ge (pp_end p) start \<and> null_le (pp_end p) end))
              (ud_plan_periods ud);
          queryset = filter (\<lambda>p. filter_aggregate_by_scope ud scope (pp_resource p)) queryset
      in group_sum (concat (map (plan_period_rows ud) queryset)))"

text \<open>A \<open>CategoryComponentUsage\<close> row.\<close>

record category_component_usage =
  ccu_id :: nat
  ccu_scope :: scope_ref
  ccu_component :: nat
  ccu_date :: date
  ccu_reported_usage :: "int option"
  ccu_fixed_usage :: "int option"

definition ccu_matches :: "scope_ref \<Rightarrow> nat \<Rightarrow> date \<Rightarrow> category_component_usage \<Rightarrow> bool" where
  "ccu_matches scope component date row =
     (ccu_scope row = scope \<and> ccu_component row = component \<and> ccu_date row = date)"

text \<open>
  \<open>objects.update_or_create(content_type, object_id, component_id, date, defaults)\<close>:
  the row the four lookups select gets the defaults and is saved; when they select no
  row one is created, under a fresh primary key; when they select several,
  \<open>MultipleObjectsReturned\<close> is raised.
\<close>

definition update_or_create ::
  "scope_ref \<Rightarrow> nat \<Rightarrow> date \<Rightarrow> int option \<Rightarrow> int option \<Rightarrow> category_component_usage list
    \<Rightarrow> error + category_component_usage list" where
  "update_or_create scope component date reported fixed table =
     (case filter (ccu_matches scope component date) table of
        [] \<Rightarrow>
          Inr (table @
            [\<lparr>ccu_id = Suc (fold max (map ccu_id table) 0), ccu_scope = scope,
              ccu_component = component, ccu_date = date,
              ccu_reported_usage = reported, ccu_fixed_usage = fixed\<rparr>])
      | [row] \<Rightarrow>
          Inr (update_rows (\<lambda>r. ccu_id r = ccu_id row)
                 (\<lambda>r. row\<lparr>ccu_reported_usage := reported, ccu_fixed_usage := fixed\<rparr>) table)
      | row # another # others \<Rightarrow> Inl MultipleObjectsReturned)"

text \<open>
  The loop over \<open>components\<close>.  \<open>reported_usage.get(component_id)\<close> is the total of the
  key or \<open>None\<close>; so is \<open>fixed_usage.get(component_id)\<close>.
\<close>

fun upsert_components ::
  "scope_ref \<Rightarrow> date \<Rightarrow> (nat \<rightharpoonup> int option) \<Rightarrow> (nat \<rightharpoonup> int option) \<Rightarrow> nat list
    \<Rightarrow> category_component_usage list \<Rightarrow> error + category_component_usage list" where
  "upsert_components scope date reported_usage fixed_usage [] table = Inr table"
| "upsert_components scope date reported_usage fixed_usage (component_id # components) table =
     (case update_or_create scope component_id date
             (dict_get reported_usage component_id None)
             (dict_get fixed_usage component_id None) table of
        Inl e \<Rightarrow> Inl e
      | Inr table1 \<Rightarrow>
          upsert_components scope date reported_usage fixed_usage components table1)"

text \<open>
  \<open>fixed_usage.pop(None, None)\<close> drops the entry without key; the keys that remain are
  primary keys of category components.
\<close>

definition pop_none :: "(nat option \<times> 'v) list \<Rightarrow> (nat \<times> 'v) list" where
  "pop_none entries =
     List.map_filter (\<lambda>(key, value). map_option (\<lambda>k. (k, value)) key) entries"

text \<open>
  \<open>set(reported_usage.keys()) | set(fixed_usage.keys())\<close>.  A Python set is iterated
  in an order of its own; the model takes each key once, reported keys first.
\<close>

definition rollup_components :: "(nat \<times> 'v) list \<Rightarrow> (nat \<times> 'v) list \<Rightarrow> nat list" where
  "rollup_components reported_usage fixed_usage =
     remdups (map fst reported_usage @ map fst fixed_usage)"

definition calculate_usage_for_scope ::
  "usage_data \<Rightarrow> datetime \<Rightarrow> datetime \<Rightarrow> scope_ref \<Rightarrow> category_component_usage list
    \<Rightarrow> error + category_component_usage list" where
  "calculate_usage_for_scope ud start end scope table =
     (let reported_usage = aggregate_reported_usage ud start end scope;
          fixed_usage = pop_none (aggregate_fixed_usage ud start end scope);
          components = rollup_components reported_usage fixed_usage
      in upsert_components scope (fst start) (dict_of reported_usage) (dict_of fixed_usage)
           components table)"

text \<open>
  January 2024 for project 1: resource 1 reported 60 of component 7, which rolls up into
  category component 5, and is on plan 9, which includes 4 of that component.
\<close>

definition rollup_data :: usage_data where
  "rollup_data =
     \<lparr>ud_usages = [january_report],
      ud_plan_periods =
        [\<lparr>pp_id = 1, pp_resource = 1, pp_plan = 9, pp_start = Some ((2024, 1, 1), 0),
          pp_end = None\<rparr>],
      ud_components = [monthly_component\<lparr>oc_parent := Some 5\<rparr>],
      ud_resources =
        [\<lparr>r_id = 1, r_project = 1, r_state = R_OK, r_end_date = None, r_scope = None\<rparr>],
      ud_projects = [],
      ud_plans =
        [\<lparr>plan_id = 9, plan_unit_price = 0, plan_offering = vm_basic,
          plan_components =
            [\<lparr>pc_id = 5, pc_component = Some (monthly_component\<lparr>oc_parent := Some 5\<rparr>),
              pc_amount = 4, pc_price = 1\<rparr>]\<rparr>]\<rparr>"

definition january_rollup :: category_component_usage where
  "january_rollup =
     \<lparr>ccu_id = 1, ccu_scope = ProjectScope 1, ccu_component = 5, ccu_date = (2024, 1, 1),
      ccu_reported_usage = Some 60, ccu_fixed_usage = Some 4\<rparr>"

section \<open>Provisioning dispatch (marketplace/utils.py)\<close>

text \<open>
  A processor is code of an offering type's plugin, outside the marketplace core.
  Constructing it for an order item and calling \<open>process_order_item(user)\<close> either
  returns or raises an exception, of which the dispatcher reads the message (\<open>str(e)\<close>)
  and the formatted traceback; either way it leaves the database in some state.  The
  plugin registry \<open>plugins.manager.get_processor\<close> gives the processor class of an
  offering type for creating, updating or deleting a resource, or none.
\<close>

datatype outcome = Returned db | Raised string string db

type_synonym processor = "order_item \<Rightarrow> nat \<Rightarrow> db \<Rightarrow> outcome"

type_synonym registry = "string \<Rightarrow> request_type \<Rightarrow> processor option"

definition get_order_item_processor :: "registry \<Rightarrow> order_item \<Rightarrow> processor option" where
  "get_order_item_processor get_processor order_item =
     (let offering_type =
            (case oi_resource order_item of
               Some (resource, resource_offering_type) \<Rightarrow> resource_offering_type
             | None \<Rightarrow> oi_offering_type order_item)
      in get_processor offering_type (oi_type order_item))"

text \<open>
  \<open>order_item.save(update_fields=[...])\<close>: the named columns of the row with the item's
  primary key take the values of the in-memory item.
\<close>

definition save_order_item ::
  "(order_item \<Rightarrow> order_item \<Rightarrow> order_item) \<Rightarrow> order_item \<Rightarrow> db \<Rightarrow> db" where
  "save_order_item update_fields order_item db =
     db\<lparr>db_order_items :=
          update_rows (\<lambda>row. oi_id row = oi_id order_item) (update_fields order_item)
            (db_order_items db)\<rparr>"


definition state_error_message_fields :: "order_item \<Rightarrow> order_item \<Rightarrow> order_item" where
  "state_error_message_fields order_item row =
     row\<lparr>oi_state := oi_state order_item,
         oi_error_message := oi_error_message order_item\<rparr>"

definition state_error_fields :: "order_item \<Rightarrow> order_item \<Rightarrow> order_item" where
  "state_error_fields order_item row =
     row\<lparr>oi_state := oi_state order_item,
         oi_error_message := oi_error_message order_item,
         oi_error_traceback := oi_error_traceback order_item\<rparr>"

definition process_order_item ::
  "registry \<Rightarrow> order_item \<Rightarrow> nat \<Rightarrow> db \<Rightarrow> (error + unit) \<times> db" where
  "process_order_item get_processor order_item user db =
     (case get_order_item_processor get_processor order_item of
        None \<Rightarrow>
          (case set_state_erred
                  (order_item\<lparr>oi_error_message :=
                     ''Skipping order item processing because processor is not found.''\<rparr>) of
             (Inl e, order_item1) \<Rightarrow> (Inl e, db)
           | (Inr done, order_item1) \<Rightarrow>
               (Inr (), save_order_item state_error_message_fields order_item1 db))
      | Some processor \<Rightarrow>
          (case processor order_item user db of
             Returned db1 \<Rightarrow> (Inr (), db1)
           | Raised message traceback db1 \<Rightarrow>
               (case set_state_erred
                       (order_item\<lparr>oi_error_message := message,
                                   oi_error_traceback := traceback\<rparr>) of
                  (Inl e, order_item1) \<Rightarrow> (Inl e, db1)
                | (Inr done, order_item1) \<Rightarrow>
                    (Inr (), save_order_item state_error_fields order_item1 db1))))"

section \<open>Order approval and processing (marketplace/models.py, tasks.py)\<close>

definition order_transition ::
  "order_state fsm_source \<Rightarrow> order_state \<Rightarrow> order \<Rightarrow> (error + unit) \<times> order" where
  "order_transition source target order =
     (if has_transition source (o_state order)
      then (Inr (), order\<lparr>o_state := target\<rparr>)
      else (Inl TransitionNotAllowed, order))"


definition complete :: "order \<Rightarrow> (error + unit) \<times> order" where
  "complete = order_transition (States [O_EXECUTING]) O_DONE"

definition terminate :: "order \<Rightarrow> (error + unit) \<times> order" where
  "terminate = order_transition AnyState O_TERMINATED"

definition reject :: "order \<Rightarrow> (error + unit) \<times> order" where
  "reject = order_transition (States [O_REQUESTED_FOR_APPROVAL]) O_REJECTED"

definition fail :: "order \<Rightarrow> (error + unit) \<times> order" where
  "fail = order_transition AnyState O_ERRED"











text \<open>
  Order 1 with two pending items: one of a local offering type, one of the remote plugin.
  The local type's create processor raises; every other processor creates nothing and
  returns.
\<close>

definition order1 :: order where
  "order1 =
     \<lparr>o_id = 1, o_project = 1, o_state = O_REQUESTED_FOR_APPROVAL, o_approved_by = None,
      o_approved_at = None\<rparr>"

definition remote_item :: order_item where
  "remote_item = item0\<lparr>oi_id := 2, oi_offering_type := ''Marketplace.Remote''\<rparr>"

definition shop_db :: db where
  "shop_db = empty_db\<lparr>db_orders := [order1], db_order_items := [item0, remote_item]\<rparr>"

definition failing_registry :: registry where
  "failing_registry offering_type kind =
     (if offering_type = ''Test.Type'' \<and> kind = CREATE
      then Some (\<lambda>item user db. Raised ''backend is down'' ''Traceback: ...'' db)
      else Some (\<lambda>item user db. Returned db))"




section \<open>Moving a resource to another project (marketplace/utils.py)\<close>

text \<open>\<open>resource.scope\<close>: the backend object behind the generic foreign key, if there is one.\<close>

definition resource_scope :: "db \<Rightarrow> resource \<Rightarrow> scope option" where
  "resource_scope db resource =
     (case r_scope resource of
        None \<Rightarrow> None
      | Some pk \<Rightarrow> find (\<lambda>s. s_id s = pk) (db_scopes db))"

text \<open>
  The loop over the service settings whose scope is the backend object: the offerings of
  each are moved with one \<open>update(project=project)\<close>.
\<close>

fun move_offerings :: "project \<Rightarrow> service_settings list \<Rightarrow> db \<Rightarrow> db" where
  "move_offerings project [] db = db"
| "move_offerings project (service_settings # rest) db =
     move_offerings project rest
       (db\<lparr>db_offerings :=
             update_rows (\<lambda>row. ofr_scope row = Some (ss_id service_settings))
               (\<lambda>row. row\<lparr>ofr_project := Some (p_id project)\<rparr>) (db_offerings db)\<rparr>)"

text \<open>
  \<open>order.items.exclude(resource=resource)\<close>: the items of the order that point to
  another resource or to none.
\<close>

definition other_items :: "db \<Rightarrow> resource \<Rightarrow> order \<Rightarrow> order_item list" where
  "other_items db resource order =
     filter (\<lambda>item. oi_order item = o_id order
                   \<and> map_option fst (oi_resource item) \<noteq> Some (r_id resource))
       (db_order_items db)"

text \<open>The loop over the orders that have an item for the resource.\<close>

fun move_orders :: "resource \<Rightarrow> project \<Rightarrow> order list \<Rightarrow> db \<Rightarrow> (error + unit) \<times> db" where
  "move_orders resource project [] db = (Inr (), db)"
| "move_orders resource project (order # rest) db =
     (if other_items db resource order \<noteq> []
      then (Inl (MoveResourceException
             ''Resource moving is not possible, because related orders are related to other resources.''),
            db)
      else move_orders resource project rest
             (db\<lparr>db_orders :=
                   update_rows (\<lambda>row. o_id row = o_id order)
                     (\<lambda>row. row\<lparr>o_project := p_id project\<rparr>) (db_orders db)\<rparr>))"

text \<open>
  Modelled from the spec: \<open>registrators.RegistrationManager.get_or_create_invoice\<close>
  (invoices/registrators.py is not under src/) gives the target invoice of a customer for
  a month: the one that exists, or a new invoice, which starts in state PENDING.
\<close>

definition get_or_create_invoice :: "nat \<Rightarrow> nat \<Rightarrow> nat \<Rightarrow> db \<Rightarrow> invoice \<times> db" where
  "get_or_create_invoice customer year month db =
     (case find (\<lambda>i. inv_customer i = customer \<and> inv_year i = year \<and> inv_month i = month)
             (db_invoices db) of
        Some invoice \<Rightarrow> (invoice, db)
      | None \<Rightarrow>
          (let invoice =
                 \<lparr>inv_id = Suc (fold max (map inv_id (db_invoices db)) 0),
                  inv_customer = customer, inv_year = year, inv_month = month,
                  inv_state = INV_PENDING, inv_current_cost = 0\<rparr>
           in (invoice, db\<lparr>db_invoices := db_invoices db @ [invoice]\<rparr>)))"

text \<open>
  Modelled from the spec: \<open>Invoice.update_current_cost\<close> (invoices/models.py is not under
  src/) stores on the invoice the current cost of its items, here the sum of their prices.
\<close>

definition update_current_cost :: "nat \<Rightarrow> db \<Rightarrow> db" where
  "update_current_cost invoice db =
     db\<lparr>db_invoices :=
          update_rows (\<lambda>row. inv_id row = invoice)
            (\<lambda>row. row\<lparr>inv_current_cost :=
                       sum_list (map ii_price
                         (filter (\<lambda>item. ii_invoice item = invoice) (db_invoice_items db)))\<rparr>)
            (db_invoices db)\<rparr>"

text \<open>The loop over the resource's items on pending invoices of the old project.\<close>

fun move_invoice_items :: "project \<Rightarrow> invoice_item list \<Rightarrow> db \<Rightarrow> (error + unit) \<times> db" where
  "move_invoice_items project [] db = (Inr (), db)"
| "move_invoice_items project (invoice_item # rest) db =
     (case find (\<lambda>i. inv_id i = ii_invoice invoice_item) (db_invoices db) of
        None \<Rightarrow> (Inl DoesNotExist, db)
      | Some start_invoice \<Rightarrow>
          (case get_or_create_invoice (c_id (p_customer project)) (inv_year start_invoice)
                  (inv_month start_invoice) db of
             (target_invoice, db1) \<Rightarrow>
               if inv_state target_invoice \<noteq> INV_PENDING
               then (Inl (MoveResourceException
                      ''Resource moving is not possible, because invoice items moving is not possible.''),
                     db1)
               else
                 move_invoice_items project rest
                   (update_current_cost (inv_id target_invoice)
                     (update_current_cost (inv_id start_invoice)
                       (db1\<lparr>db_invoice_items :=
                              update_rows (\<lambda>row. ii_id row = ii_id invoice_item)
                                (\<lambda>row. row\<lparr>ii_project := Some (p_id project),
                                           ii_project_uuid := p_uuid project,
                                           ii_project_name := p_name project,
                                           ii_invoice := inv_id target_invoice\<rparr>)
                                (db_invoice_items db1)\<rparr>)))))"

text \<open>The join \<open>invoice__state=PENDING\<close> of the queryset of invoice items.\<close>

definition on_pending_invoice :: "db \<Rightarrow> invoice_item \<Rightarrow> bool" where
  "on_pending_invoice db item =
     (case find (\<lambda>i. inv_id i = ii_invoice item) (db_invoices db) of
        None \<Rightarrow> False
      | Some invoice \<Rightarrow> inv_state invoice = INV_PENDING)"

text \<open>The body of \<open>move_resource\<close>: the outcome and the database as the body wrote it.\<close>

definition move_resource_body :: "resource \<Rightarrow> project \<Rightarrow> db \<Rightarrow> (error + unit) \<times> db" where
  "move_resource_body resource project db =
     (if c_blocked (p_customer project)
      then (Inl (ValidationError ''New customer must be not blocked''), db)
      else
        let old_project = r_project resource;
            db1 = db\<lparr>db_resources :=
                       update_rows (\<lambda>row. r_id row = r_id resource)
                         (\<lambda>row. row\<lparr>r_project := p_id project\<rparr>) (db_resources db)\<rparr>;
            db2 = (case resource_scope db1 resource of
                     None \<Rightarrow> db1
                   | Some scope \<Rightarrow>
                       (let db1a = db1\<lparr>db_scopes :=
                                        update_rows (\<lambda>row. s_id row = s_id scope)
                                          (\<lambda>row. row\<lparr>s_project := p_id project\<rparr>)
                                          (db_scopes db1)\<rparr>
                        in move_offerings project
                             (filter (\<lambda>ss. ss_scope ss = Some (s_id scope))
                                (db_service_settings db1a))
                             db1a));
            order_ids =
              map oi_order
                (filter (\<lambda>item. map_option fst (oi_resource item) = Some (r_id resource))
                   (db_order_items db2))
        in (case move_orders resource project
                  (filter (\<lambda>order. o_id order \<in> set order_ids) (db_orders db2)) db2 of
              (Inl e, db3) \<Rightarrow> (Inl e, db3)
            | (Inr done, db3) \<Rightarrow>
                move_invoice_items project
                  (filter (\<lambda>item. ii_resource item = Some (r_id resource)
                                 \<and> on_pending_invoice db3 item
                                 \<and> ii_project item = Some old_project)
                     (db_invoice_items db3))
                  db3))"

text \<open>
  \<open>@transaction.atomic\<close>: when the body raises, the transaction is rolled back and the
  database is the one the call started from.
\<close>

definition move_resource :: "resource \<Rightarrow> project \<Rightarrow> db \<Rightarrow> (error + unit) \<times> db" where
  "move_resource resource project db =
     (case move_resource_body resource project db of
        (Inl e, db1) \<Rightarrow> (Inl e, db)
      | (Inr done, db1) \<Rightarrow> (Inr (), db1))"

text \<open>
  The two conditions of the specification.  An order is shared when it has an item for
  the resource and an item that is not for it.  The target invoice is not movable when an
  item of the resource, on a pending invoice of the resource's project, would go to an
  invoice of the new customer for the same month that exists and is not pending.
\<close>

definition shared_order :: "db \<Rightarrow> resource \<Rightarrow> bool" where
  "shared_order db resource =
     (\<exists>order \<in> set (db_orders db).
        (\<exists>item \<in> set (db_order_items db).
           oi_order item = o_id order
           \<and> map_option fst (oi_resource item) = Some (r_id resource))
        \<and> (\<exists>other \<in> set (db_order_items db).
           oi_order other = o_id order
           \<and> map_option fst (oi_resource other) \<noteq> Some (r_id resource)))"

definition target_invoice_not_pending :: "db \<Rightarrow> resource \<Rightarrow> project \<Rightarrow> bool" where
  "target_invoice_not_pending db resource project =
     (\<exists>item \<in> set (db_invoice_items db). \<exists>start_invoice target_invoice.
        ii_resource item = Some (r_id resource)
        \<and> ii_project item = Some (r_project resource)
        \<and> find (\<lambda>i. inv_id i = ii_invoice item) (db_invoices db) = Some start_invoice
        \<and> inv_state start_invoice = INV_PENDING
        \<and> find (\<lambda>i. inv_customer i = c_id (p_customer project)
                     \<and> inv_year i = inv_year start_invoice
                     \<and> inv_month i = inv_month start_invoice)
             (db_invoices db) = Some target_invoice
        \<and> inv_state target_invoice \<noteq> INV_PENDING)"

text \<open>
  The month of an invoice by primary key, and the state of the invoice of a customer for
  a month: what the invoice item loop reads of the invoice table.
\<close>

definition invoice_month :: "db \<Rightarrow> nat \<Rightarrow> (nat \<times> nat) option" where
  "invoice_month db pk =
     map_option (\<lambda>i. (inv_year i, inv_month i)) (find (\<lambda>i. inv_id i = pk) (db_invoices db))"

definition target_state :: "db \<Rightarrow> nat \<Rightarrow> nat \<times> nat \<Rightarrow> invoice_state option" where
  "target_state db customer ym =
     map_option inv_state
       (find (\<lambda>i. inv_customer i = customer \<and> inv_year i = fst ym \<and> inv_month i = snd ym)
          (db_invoices db))"

text \<open>The database after the resource, its scope and the scope's offerings were moved.\<close>

definition relocated :: "resource \<Rightarrow> project \<Rightarrow> db \<Rightarrow> db" where
  "relocated resource project db =
     (let db1 = db\<lparr>db_resources :=
                    update_rows (\<lambda>row. r_id row = r_id resource)
                      (\<lambda>row. row\<lparr>r_project := p_id project\<rparr>) (db_resources db)\<rparr>
      in case resource_scope db1 resource of
           None \<Rightarrow> db1
         | Some scope \<Rightarrow>
             (let db1a = db1\<lparr>db_scopes :=
                              update_rows (\<lambda>row. s_id row = s_id scope)
                                (\<lambda>row. row\<lparr>s_project := p_id project\<rparr>) (db_scopes db1)\<rparr>
              in move_offerings project
                   (filter (\<lambda>ss. ss_scope ss = Some (s_id scope)) (db_service_settings db1a))
                   db1a))"

text \<open>
  Resource 1 of project 1 is to move to project 2 of customer 2.  In the first database
  its order also holds an item for resource 2.  In the second it has an order of its own
  and an item on customer 1's pending invoice for January 2024, while customer 2's
  invoice for that month is already paid.
\<close>

definition moved_resource :: resource where
  "moved_resource =
     \<lparr>r_id = 1, r_project = 1, r_state = R_OK, r_end_date = None, r_scope = None\<rparr>"

definition new_project :: project where
  "new_project =
     \<lparr>p_id = 2, p_customer = \<lparr>c_id = 2, c_blocked = False\<rparr>, p_name = ''beta'',
      p_uuid = ''b2''\<rparr>"

definition blocked_project :: project where
  "blocked_project = new_project\<lparr>p_customer := \<lparr>c_id = 2, c_blocked = True\<rparr>\<rparr>"

definition shared_order_db :: db where
  "shared_order_db =
     empty_db\<lparr>db_resources := [moved_resource, moved_resource\<lparr>r_id := 2\<rparr>],
              db_orders := [order1],
              db_order_items :=
                [item0\<lparr>oi_resource := Some (1, ''Test.Type'')\<rparr>,
                 item0\<lparr>oi_id := 2, oi_resource := Some (2, ''Test.Type'')\<rparr>]\<rparr>"

definition paid_target_db :: db where
  "paid_target_db =
     empty_db\<lparr>db_resources := [moved_resource],
              db_orders := [order1],
              db_order_items := [item0\<lparr>oi_resource := Some (1, ''Test.Type'')\<rparr>],
              db_invoices :=
                [january_invoice,
                 january_invoice\<lparr>inv_id := 2, inv_customer := 2, inv_state := INV_PAID\<rparr>],
              db_invoice_items := [usage_item]\<rparr>"

section \<open>Order item state machine: results\<close>

lemmas oi_methods_defs =
  set_state_executing_def set_state_done_def set_state_erred_def set_state_terminated_def
  set_state_terminating_def oi_transition_def

text \<open>
  C1 (as stated, refuted).  The claim says that an attempt outside the documented adjacency
  list is rejected and that Done, Erred and Terminated have no outgoing transition.  On
  the code \<open>set_state_erred\<close> is declared with \<open>source='*'\<close>: called on a Done item it is
  accepted and the item becomes Erred, although (Done, Erred) is not in the list.
\<close>

theorem C1_done_to_erred_counterexample:
  "(OI_DONE, OI_ERRED) \<notin> documented_adjacency
   \<and> oi_attempt SetStateErred (item0\<lparr>oi_state := OI_DONE\<rparr>)
       = (Inr (), item0\<lparr>oi_state := OI_ERRED\<rparr>)"
  by (simp add: documented_adjacency_def oi_methods_defs item0_def)

text \<open>
  C1 (amended).  An attempt is rejected, with the item left exactly as it was, precisely
  when it is \<open>set_state_executing\<close> from a state other than Pending or Erred,
  \<open>set_state_done\<close> from a state other than Executing, or \<open>set_state_terminating\<close> from
  a state other than Pending or Executing; \<open>set_state_erred\<close> and
  \<open>set_state_terminated\<close> are accepted from every state.  An accepted attempt moves the
  item to the method's target state.
\<close>

theorem C1_order_item_transitions:
  "oi_attempt m item =
     (if (m = SetStateExecuting \<and> oi_state item \<notin> {OI_PENDING, OI_ERRED})
         \<or> ((\<exists>now. m = SetStateDone now) \<and> oi_state item \<noteq> OI_EXECUTING)
         \<or> (m = SetStateTerminating \<and> oi_state item \<notin> {OI_PENDING, OI_EXECUTING})
      then (Inl TransitionNotAllowed, item)
      else (Inr (),
            (case m of SetStateDone now \<Rightarrow> item\<lparr>oi_activated := Some now\<rparr> | _ \<Rightarrow> item)
              \<lparr>oi_state :=
                 (case m of SetStateExecuting \<Rightarrow> OI_EXECUTING | SetStateDone now \<Rightarrow> OI_DONE
                  | SetStateErred \<Rightarrow> OI_ERRED | SetStateTerminated \<Rightarrow> OI_TERMINATED
                  | SetStateTerminating \<Rightarrow> OI_TERMINATING)\<rparr>))"
  by (cases m) (simp_all add: oi_methods_defs)

theorem C1_order_item_transitions_witness:
  "oi_attempt SetStateTerminating (item0\<lparr>oi_state := OI_DONE\<rparr>)
     = (Inl TransitionNotAllowed, item0\<lparr>oi_state := OI_DONE\<rparr>)
   \<and> oi_attempt SetStateExecuting (item0\<lparr>oi_state := OI_ERRED\<rparr>)
     = (Inr (), item0\<lparr>oi_state := OI_EXECUTING\<rparr>)"
  using C1_order_item_transitions [of SetStateTerminating "item0\<lparr>oi_state := OI_DONE\<rparr>"]
        C1_order_item_transitions [of SetStateExecuting "item0\<lparr>oi_state := OI_ERRED\<rparr>"]
  by simp

section \<open>validate_limits: results\<close>

lemma check_limit_values_raises_iff:
  "(\<exists>e. check_limit_values cm ls = Inl e) =
   (\<exists>k v c. (k, v) \<in> set ls \<and> cm k = Some c \<and>
      ((truthy (oc_max_value c) \<and> v > the (oc_max_value c))
       \<or> (truthy (oc_min_value c) \<and> v < the (oc_min_value c))))"
proof (induction cm ls rule: check_limit_values.induct)
  case (1 components_map)
  show ?case by simp
next
  case (2 components_map key "value" rest)
  show ?case
  proof (cases "components_map key")
    case None
    with 2 show ?thesis by auto
  next
    case (Some component)
    show ?thesis
    proof (cases "(truthy (oc_max_value component) \<and> value > the (oc_max_value component))
        \<or> (truthy (oc_min_value component) \<and> value < the (oc_min_value component))")
      case True
      with Some show ?thesis by auto
    next
      case False
      with Some 2 show ?thesis by auto
    qed
  qed
qed

lemma check_limit_values_error:
  "check_limit_values cm ls = Inl e \<Longrightarrow> \<exists>msg. e = ValidationError msg"
  by (induction cm ls rule: check_limit_values.induct) (auto split: option.splits if_splits)

lemma truthy_iff: "truthy x = (\<exists>m. x = Some m \<and> m \<noteq> 0)"
  by (cases x) auto

lemma dict_of_distinct:
  assumes "distinct (map fst kvs)"
  shows "dict_of kvs k = Some v \<longleftrightarrow> (k, v) \<in> set kvs"
  using assms unfolding dict_of_def
  by (metis distinct_rev map_of_eq_Some_iff rev_map set_rev)

lemma components_map_lookup:
  assumes "distinct (map oc_type comps)"
  shows "dict_of (map (\<lambda>component. (oc_type component, component)) (filter P comps)) k = Some c
         \<longleftrightarrow> c \<in> set comps \<and> P c \<and> oc_type c = k"
proof -
  have "distinct (map fst (map (\<lambda>component. (oc_type component, component)) (filter P comps)))"
    using assms by (simp add: comp_def distinct_map_filter)
  then show ?thesis
    by (auto simp: dict_of_distinct)
qed

text \<open>
  C10.  For an offering whose component types are distinct (the model's uniqueness
  constraint), \<open>validate_limits\<close> raises exactly when the offering's plugin does not
  support limit updates, or a requested key is not the type of a LIMIT-billed component of
  the offering, or a requested value is above the nonzero \<open>max_value\<close> or below the
  nonzero \<open>min_value\<close> of the component of that type; a bound that is unset or 0 is
  no bound.  What it raises is a validation error.
\<close>

theorem C10_validate_limits_raises_iff:
  assumes "distinct (map oc_type (off_components offering))"
  shows "(\<exists>e. validate_limits can_update_limits limits offering = Inl e) =
     (\<not> can_update_limits (off_type offering)
      \<or> (\<exists>k v. (k, v) \<in> set limits \<and>
            \<not> (\<exists>c. c \<in> set (off_components offering) \<and> oc_type c = k \<and> oc_billing_type c = LIMIT))
      \<or> (\<exists>k v c. (k, v) \<in> set limits \<and> c \<in> set (off_components offering) \<and>
            oc_type c = k \<and> oc_billing_type c = LIMIT \<and>
            ((\<exists>m. oc_max_value c = Some m \<and> m \<noteq> 0 \<and> v > m)
             \<or> (\<exists>m. oc_min_value c = Some m \<and> m \<noteq> 0 \<and> v < m))))
     \<and> (\<forall>e. validate_limits can_update_limits limits offering = Inl e
            \<longrightarrow> (\<exists>msg. e = ValidationError msg))"
    (is "(?raises = (?unsupported \<or> ?invalid \<or> ?out_of_bounds)) \<and> ?validation")
proof (rule conjI)
  show ?validation
    by (auto simp: validate_limits_def Let_def dest: check_limit_values_error
        split: if_splits)
next
  show "?raises = (?unsupported \<or> ?invalid \<or> ?out_of_bounds)"
  proof (cases "can_update_limits (off_type offering)")
    case False
    then show ?thesis by (simp add: validate_limits_def)
  next
    case True
    let ?valid = "set (map oc_type (filter (\<lambda>c. oc_billing_type c = LIMIT) (off_components offering)))"
    have inv: "(set (map fst limits) - ?valid \<noteq> {}) = ?invalid"
      by (auto simp: image_iff) force+
    show ?thesis
    proof (cases ?invalid)
      case True
      with \<open>can_update_limits (off_type offering)\<close> inv show ?thesis
        by (simp add: validate_limits_def Let_def)
    next
      case False
      have valid_limit: "oc_type c \<in> ?valid \<longleftrightarrow> oc_billing_type c = LIMIT"
        if "c \<in> set (off_components offering)" for c
        using that assms by (auto simp: distinct_map inj_on_def)
      have noinv: "set (map fst limits) - ?valid = {}"
        using False inv by blast
      have "validate_limits can_update_limits limits offering =
            check_limit_values
              (dict_of (map (\<lambda>component. (oc_type component, component))
                (filter (\<lambda>c. oc_type c \<in> ?valid) (off_components offering)))) limits"
        unfolding validate_limits_def Let_def
        using \<open>can_update_limits (off_type offering)\<close> noinv
        by (simp only: simp_thms if_False)
      then have "?raises = (\<exists>k v c. (k, v) \<in> set limits \<and>
              dict_of (map (\<lambda>component. (oc_type component, component))
                (filter (\<lambda>c. oc_type c \<in> ?valid) (off_components offering))) k = Some c \<and>
              ((truthy (oc_max_value c) \<and> v > the (oc_max_value c))
               \<or> (truthy (oc_min_value c) \<and> v < the (oc_min_value c))))"
        by (simp only: check_limit_values_raises_iff)
      also have "\<dots> = ?out_of_bounds"
      proof -
        have step: "(c \<in> set (off_components offering) \<and> oc_type c \<in> ?valid \<and> oc_type c = k)
            = (c \<in> set (off_components offering) \<and> oc_type c = k \<and> oc_billing_type c = LIMIT)"
          for c k
          using valid_limit by blast
        have bound: "((truthy x \<and> v > the x) \<or> (truthy y \<and> v < the y))
            = ((\<exists>m. x = Some m \<and> m \<noteq> 0 \<and> v > m) \<or> (\<exists>m. y = Some m \<and> m \<noteq> 0 \<and> v < m))"
          for x y :: "int option" and v
          by (cases x; cases y) auto
        show ?thesis
          unfolding components_map_lookup [OF assms] step bound by blast
      qed
      finally show ?thesis using False \<open>can_update_limits (off_type offering)\<close> by blast
    qed
  qed
qed

theorem C10_validate_limits_raises_iff_witness:
  "(\<exists>e. validate_limits (\<lambda>t. True) [(''cores'', 20)] vm_basic = Inl e)
   \<and> validate_limits (\<lambda>t. True) [(''cores'', 16)] vm_basic = Inr ()"
proof -
  have d: "distinct (map oc_type (off_components vm_basic))"
    by (simp add: vm_basic_def)
  have "(''cores'', 20) \<in> set [(''cores'', 20::int)]
        \<and> cores_component \<in> set (off_components vm_basic)
        \<and> oc_type cores_component = ''cores'' \<and> oc_billing_type cores_component = LIMIT
        \<and> oc_max_value cores_component = Some 16"
    by (simp add: vm_basic_def cores_component_def)
  then have "\<exists>e. validate_limits (\<lambda>t. True) [(''cores'', 20)] vm_basic = Inl e"
    using C10_validate_limits_raises_iff [OF d, of "\<lambda>t. True" "[(''cores'', 20)]"]
    by fastforce
  moreover have "validate_limits (\<lambda>t. True) [(''cores'', 16)] vm_basic = Inr ()"
    by (simp add: validate_limits_def vm_basic_def cores_component_def dict_of_def)
  ultimately show ?thesis by simp
qed

section \<open>Monthly limits and the expiry sweep: results\<close>

lemma sum_list_no_rows: "sum_list (map f (filter (\<lambda>x. False) xs)) = 0"
  by simp

text \<open>
  C6 (what the code does for a monthly limit).  With \<open>limit_period = MONTH\<close> the code
  keeps only the usage rows whose report timestamp \<open>date\<close> equals the first instant of
  the month.  Whenever no row of the table was reported at that very instant, the total
  is 0 whatever was reported during the month, and the call raises exactly when the new
  amount alone exceeds the limit.
\<close>

theorem C6_monthly_total_skips_reports:
  assumes "oc_limit_period self = Some MONTH"
    and "oc_limit_amount self = Some limit" and "limit \<noteq> 0"
    and "\<forall>u \<in> set table. cu_date u \<noteq> month_start date"
  shows "validate_amount table self resource amount date =
           (if amount > limit
            then Inl (ValidationError
                   ''Total amount exceeds limit. Total amount: %s, limit: %s.'')
            else Inr ())"
proof -
  have "filter (\<lambda>u. cu_date u = month_start date)
      (filter (\<lambda>u. cu_resource u = resource \<and> cu_component u = oc_id self) table) = []"
    unfolding filter_empty_conv using assms(4) by auto
  then show ?thesis
    using assms(1-3) by (simp add: validate_amount_def MONTH_def Let_def)
qed

text \<open>
  The failing input: the component allows 100 a month and 60 were reported on 15 January
  2024, billed in January.  Validating a further 50 on 20 January 2024 passes, although
  60 + 50 exceeds 100.
\<close>

theorem C6_monthly_total_skips_reports_witness:
  "validate_amount [january_report] monthly_component 1 50 ((2024, 1, 20), 0) = Inr ()
   \<and> cu_billing_period january_report = fst (month_start ((2024, 1, 20), 0))
   \<and> cu_usage january_report + 50 > 100"
proof -
  have "validate_amount [january_report] monthly_component 1 50 ((2024, 1, 20), 0) =
          (if (50::int) > 100 then Inl (ValidationError
                   ''Total amount exceeds limit. Total amount: %s, limit: %s.'')
           else Inr ())"
    by (rule C6_monthly_total_skips_reports)
       (simp_all add: monthly_component_def january_report_def)
  then show ?thesis
    by (simp add: january_report_def)
qed

text \<open>
  C3 (what the code selects).  The sweep selects exactly the resources whose end date is
  set and not after today, whatever their state: the single \<open>exclude\<close> call only drops
  rows that have no end date and are Terminated or Terminating, and those rows fail the
  date filter anyway.
\<close>

theorem C3_expired_resources_ignore_state:
  "expired_resources today resources =
     filter (\<lambda>r. \<exists>end_date. r_end_date r = Some end_date \<and> end_date \<le> today) resources"
proof -
  have "expired_resources today resources =
     filter (\<lambda>r. \<not> (r_end_date r = None \<and> r_state r \<in> {R_TERMINATED, R_TERMINATING})
                \<and> (case r_end_date r of None \<Rightarrow> False | Some end_date \<Rightarrow> end_date \<le> today))
       resources"
    unfolding expired_resources_def filter_filter ..
  also have "\<dots> =
     filter (\<lambda>r. \<exists>end_date. r_end_date r = Some end_date \<and> end_date \<le> today) resources"
  proof (rule filter_cong [OF refl])
    fix r
    show "(\<not> (r_end_date r = None \<and> r_state r \<in> {R_TERMINATED, R_TERMINATING})
           \<and> (case r_end_date r of None \<Rightarrow> False | Some end_date \<Rightarrow> end_date \<le> today))
        = (\<exists>end_date. r_end_date r = Some end_date \<and> end_date \<le> today)"
      by (cases "r_end_date r") simp_all
  qed
  finally show ?thesis .
qed

text \<open>
  The failing input: on 2 January 2024 a resource that is already Terminated, with end
  date 1 January 2024, is selected, and with the system robot present the terminate
  action is requested for it once more.
\<close>

theorem C3_expired_resources_ignore_state_witness:
  "expired_resources (2024, 1, 2) [terminated_resource] = [terminated_resource]
   \<and> r_state terminated_resource = R_TERMINATED
   \<and> terminate_resource_if_its_end_date_has_been_reached
        (\<lambda>db user resource. (409, r_id resource # db)) (Some 1) (2024, 1, 2)
        [terminated_resource] []
      = ([3], [3])"
  using C3_expired_resources_ignore_state [of "(2024, 1, 2)" "[terminated_resource]"]
  by (simp add: terminated_resource_def
      terminate_resource_if_its_end_date_has_been_reached_def
      schedule_resources_termination_def)

section \<open>Cost estimates: results\<close>












section \<open>Editing an invoice item: results\<close>









section \<open>Usage roll-up: results\<close>

lemma fold_max_ge: "a \<le> fold max xs a \<and> (\<forall>x \<in> set xs. x \<le> fold max xs (a::nat))"
proof (induction xs arbitrary: a)
  case Nil
  show ?case by simp
next
  case (Cons y ys)
  from Cons.IH [of "max y a"] show ?case by auto
qed

lemma fresh_id: "Suc (fold max (map ccu_id table) 0) \<notin> set (map ccu_id table)"
  using fold_max_ge [of 0 "map ccu_id table"] by fastforce

lemma same_id_same_row:
  assumes "distinct (map ccu_id table)" and "r \<in> set table" and "row \<in> set table"
    and "ccu_id r = ccu_id row"
  shows "r = row"
  using assms by (meson distinct_map inj_onD)

lemma filter_single:
  assumes "filter P xs = [x]"
  shows "x \<in> set xs" and "P x"
proof -
  from assms have "x \<in> set (filter P xs)" by simp
  then show "x \<in> set xs" and "P x" by simp_all
qed

lemma ccu_matches_defaults [simp]:
  "ccu_matches scope k date (row\<lparr>ccu_reported_usage := a, ccu_fixed_usage := b\<rparr>)
   = ccu_matches scope k date row"
  by (simp add: ccu_matches_def)

text \<open>Writing the defaults into the one row of a key, seen as a map over the table.\<close>

lemma update_single_row:
  assumes ids: "distinct (map ccu_id table)" and row: "row \<in> set table"
  shows "update_rows (\<lambda>r. ccu_id r = ccu_id row) (\<lambda>r. row') table
         = map (\<lambda>r. if r = row then row' else r) table"
  unfolding update_rows_def
  by (rule map_cong [OF refl]) (use same_id_same_row [OF ids _ row] in auto)

lemma update_or_create_post:
  assumes ids: "distinct (map ccu_id table)"
    and single: "length (filter (ccu_matches scope k date) table) \<le> 1"
  shows "\<exists>table1. update_or_create scope k date a b table = Inr table1
           \<and> distinct (map ccu_id table1)
           \<and> (\<exists>row. filter (ccu_matches scope k date) table1 = [row]
                  \<and> ccu_reported_usage row = a \<and> ccu_fixed_usage row = b)
           \<and> (\<forall>k'. k' \<noteq> k \<longrightarrow> filter (ccu_matches scope k' date) table1
                                 = filter (ccu_matches scope k' date) table)"
proof (cases "filter (ccu_matches scope k date) table")
  case Nil
  let ?new = "\<lparr>ccu_id = Suc (fold max (map ccu_id table) 0), ccu_scope = scope,
              ccu_component = k, ccu_date = date,
              ccu_reported_usage = a, ccu_fixed_usage = b\<rparr>"
  have "update_or_create scope k date a b table = Inr (table @ [?new])"
    using Nil by (simp add: update_or_create_def)
  moreover have "distinct (map ccu_id (table @ [?new]))"
    using ids fresh_id [of table] by simp
  moreover have "filter (ccu_matches scope k date) (table @ [?new]) = [?new]"
    using Nil by (simp add: ccu_matches_def)
  moreover have "filter (ccu_matches scope k' date) (table @ [?new])
      = filter (ccu_matches scope k' date) table" if "k' \<noteq> k" for k'
    using that by (simp add: ccu_matches_def)
  ultimately show ?thesis by auto
next
  case (Cons row rest)
  with single have rest: "rest = []" by simp
  with Cons have only: "filter (ccu_matches scope k date) table = [row]" by simp
  then have row: "row \<in> set table" and m: "ccu_matches scope k date row"
    by (rule filter_single)+
  let ?row' = "row\<lparr>ccu_reported_usage := a, ccu_fixed_usage := b\<rparr>"
  let ?f = "\<lambda>r. if r = row then ?row' else r"
  have run: "update_or_create scope k date a b table = Inr (map ?f table)"
    using only update_single_row [OF ids row, of ?row']
    by (simp add: update_or_create_def)
  have "map ccu_id (map ?f table) = map ccu_id table"
    by (rule trans [OF map_map]) (rule map_cong [OF refl], simp)
  with ids have ids1: "distinct (map ccu_id (map ?f table))"
    by (simp only:)
  have keep: "ccu_matches scope k' date (?f r) = ccu_matches scope k' date r" for k' r
    by simp
  have filt: "filter (ccu_matches scope k' date) (map ?f table)
      = map ?f (filter (ccu_matches scope k' date) table)" for k'
    by (simp add: filter_map comp_def keep)
  have one: "filter (ccu_matches scope k date) (map ?f table) = [?row']"
    unfolding filt only by simp
  have frame: "filter (ccu_matches scope k' date) (map ?f table)
      = filter (ccu_matches scope k' date) table" if "k' \<noteq> k" for k'
  proof -
    have "r \<noteq> row" if "r \<in> set (filter (ccu_matches scope k' date) table)" for r
      using that m \<open>k' \<noteq> k\<close> by (auto simp: ccu_matches_def)
    then have "map ?f (filter (ccu_matches scope k' date) table)
        = filter (ccu_matches scope k' date) table"
      by (intro map_idI) simp
    then show ?thesis unfolding filt .
  qed
  show ?thesis
  proof (intro exI conjI allI impI)
    show "update_or_create scope k date a b table = Inr (map ?f table)" by (rule run)
    show "distinct (map ccu_id (map ?f table))" by (rule ids1)
    show "filter (ccu_matches scope k date) (map ?f table) = [?row']" by (rule one)
    show "ccu_reported_usage ?row' = a" by simp
    show "ccu_fixed_usage ?row' = b" by simp
    show "filter (ccu_matches scope k' date) (map ?f table)
        = filter (ccu_matches scope k' date) table" if "k' \<noteq> k" for k'
      using that by (rule frame)
  qed
qed

lemma update_or_create_fixpoint:
  assumes ids: "distinct (map ccu_id table)"
    and only: "filter (ccu_matches scope k date) table = [row]"
    and "ccu_reported_usage row = a" and "ccu_fixed_usage row = b"
  shows "update_or_create scope k date a b table = Inr table"
proof -
  from only have row: "row \<in> set table"
    by (rule filter_single)
  have "row\<lparr>ccu_reported_usage := a, ccu_fixed_usage := b\<rparr> = row"
    using assms(3,4) by simp
  then have "update_rows (\<lambda>r. ccu_id r = ccu_id row)
      (\<lambda>r. row\<lparr>ccu_reported_usage := a, ccu_fixed_usage := b\<rparr>) table = table"
    using update_single_row [OF ids row, of row] by (simp add: map_idI)
  then show ?thesis
    using only by (simp add: update_or_create_def)
qed

lemma upsert_components_post:
  assumes "distinct components" and "distinct (map ccu_id table)"
    and "\<forall>k \<in> set components. length (filter (ccu_matches scope k date) table) \<le> 1"
  shows "\<exists>table1. upsert_components scope date reported fixed components table = Inr table1
           \<and> distinct (map ccu_id table1)
           \<and> (\<forall>k \<in> set components. \<exists>row. filter (ccu_matches scope k date) table1 = [row]
                  \<and> ccu_reported_usage row = dict_get reported k None
                  \<and> ccu_fixed_usage row = dict_get fixed k None)
           \<and> (\<forall>k'. k' \<notin> set components \<longrightarrow> filter (ccu_matches scope k' date) table1
                                 = filter (ccu_matches scope k' date) table)"
  using assms
proof (induction components arbitrary: table)
  case Nil
  then show ?case by simp
next
  case (Cons k ks)
  from Cons.prems have single: "length (filter (ccu_matches scope k date) table) \<le> 1"
    by simp
  from update_or_create_post [OF Cons.prems(2) single,
      of "dict_get reported k None" "dict_get fixed k None"]
  obtain table1 row where
    step: "update_or_create scope k date (dict_get reported k None) (dict_get fixed k None)
             table = Inr table1"
    and ids1: "distinct (map ccu_id table1)"
    and row: "filter (ccu_matches scope k date) table1 = [row]"
      "ccu_reported_usage row = dict_get reported k None"
      "ccu_fixed_usage row = dict_get fixed k None"
    and frame1: "\<And>k'. k' \<noteq> k \<Longrightarrow> filter (ccu_matches scope k' date) table1
                                 = filter (ccu_matches scope k' date) table"
    by blast
  have "\<forall>k' \<in> set ks. length (filter (ccu_matches scope k' date) table1) \<le> 1"
  proof
    fix k'
    assume k': "k' \<in> set ks"
    then have "k' \<noteq> k" using Cons.prems(1) by auto
    then show "length (filter (ccu_matches scope k' date) table1) \<le> 1"
      using frame1 Cons.prems(3) k' by simp
  qed
  from Cons.IH [OF _ ids1 this] Cons.prems(1)
  obtain table2 where
    rest: "upsert_components scope date reported fixed ks table1 = Inr table2"
    and ids2: "distinct (map ccu_id table2)"
    and rows2: "\<forall>k' \<in> set ks. \<exists>row. filter (ccu_matches scope k' date) table2 = [row]
                  \<and> ccu_reported_usage row = dict_get reported k' None
                  \<and> ccu_fixed_usage row = dict_get fixed k' None"
    and frame2: "\<And>k'. k' \<notin> set ks \<Longrightarrow> filter (ccu_matches scope k' date) table2
                                 = filter (ccu_matches scope k' date) table1"
    by auto
  have "k \<notin> set ks" using Cons.prems(1) by simp
  then have "filter (ccu_matches scope k date) table2 = [row]"
    using frame2 row(1) by simp
  moreover have "filter (ccu_matches scope k' date) table2
      = filter (ccu_matches scope k' date) table" if "k' \<notin> set (k # ks)" for k'
    using that frame1 frame2 by simp
  ultimately show ?case
    using step rest ids2 rows2 row(2,3) by auto
qed

lemma upsert_components_fixpoint:
  assumes "distinct (map ccu_id table)"
    and "\<forall>k \<in> set components. \<exists>row. filter (ccu_matches scope k date) table = [row]
                  \<and> ccu_reported_usage row = dict_get reported k None
                  \<and> ccu_fixed_usage row = dict_get fixed k None"
  shows "upsert_components scope date reported fixed components table = Inr table"
  using assms
proof (induction components)
  case Nil
  show ?case by simp
next
  case (Cons k ks)
  from Cons.prems(2) obtain row where
    "filter (ccu_matches scope k date) table = [row]"
    "ccu_reported_usage row = dict_get reported k None"
    "ccu_fixed_usage row = dict_get fixed k None"
    by auto
  from update_or_create_fixpoint [OF Cons.prems(1) this]
  show ?case using Cons by simp
qed

lemma pop_none_keys: "set (map fst (pop_none entries)) = {k. Some k \<in> set (map fst entries)}"
  by (induction entries) (auto simp: pop_none_def List.map_filter_simps split: option.splits)


lemma rollup_components_keys:
  "set (rollup_components reported (pop_none fixed))
   = {k. k \<in> set (map fst reported) \<or> Some k \<in> set (map fst fixed)}"
  unfolding rollup_components_def set_remdups set_append pop_none_keys by auto

text \<open>
  C7.  On a table with distinct primary keys and at most one row per key of the scope and
  period, \<open>calculate_usage_for_scope\<close> returns, and running it again on the table it
  left, over the same usage data, returns that very table.  After either run every key of
  the reported aggregate or of the fixed aggregate (the entry without key dropped) has
  exactly one row, which holds the two totals of the key; the rows of every other key are
  the rows the table had before.
\<close>

theorem C7_calculate_usage_idempotent:
  assumes "distinct (map ccu_id table)"
    and "\<forall>k. length (filter (ccu_matches scope k (fst start)) table) \<le> 1"
  shows "\<exists>table1.
           calculate_usage_for_scope ud start end scope table = Inr table1
         \<and> calculate_usage_for_scope ud start end scope table1 = Inr table1
         \<and> (\<forall>k. k \<in> set (map fst (aggregate_reported_usage ud start end scope))
                 \<or> Some k \<in> set (map fst (aggregate_fixed_usage ud start end scope))
               \<longrightarrow> (\<exists>row. filter (ccu_matches scope k (fst start)) table1 = [row]
                      \<and> ccu_reported_usage row =
                          dict_get (dict_of (aggregate_reported_usage ud start end scope)) k None
                      \<and> ccu_fixed_usage row =
                          dict_get (dict_of (pop_none (aggregate_fixed_usage ud start end scope)))
                            k None))
         \<and> (\<forall>k. \<not> (k \<in> set (map fst (aggregate_reported_usage ud start end scope))
                    \<or> Some k \<in> set (map fst (aggregate_fixed_usage ud start end scope)))
               \<longrightarrow> filter (ccu_matches scope k (fst start)) table1
                   = filter (ccu_matches scope k (fst start)) table)"
proof -
  let ?reported = "aggregate_reported_usage ud start end scope"
  let ?fixed = "pop_none (aggregate_fixed_usage ud start end scope)"
  let ?components = "rollup_components ?reported ?fixed"
  let ?run = "upsert_components scope (fst start) (dict_of ?reported) (dict_of ?fixed) ?components"
  have run: "calculate_usage_for_scope ud start end scope t = ?run t" for t
    by (simp add: calculate_usage_for_scope_def Let_def)
  have keys: "set ?components
      = {k. k \<in> set (map fst ?reported)
            \<or> Some k \<in> set (map fst (aggregate_fixed_usage ud start end scope))}"
    by (rule rollup_components_keys)
  have "distinct ?components"
    by (simp add: rollup_components_def)
  moreover have "\<forall>k \<in> set ?components.
      length (filter (ccu_matches scope k (fst start)) table) \<le> 1"
    using assms(2) by blast
  ultimately obtain table1 where
    first: "?run table = Inr table1"
    and ids1: "distinct (map ccu_id table1)"
    and rows: "\<forall>k \<in> set ?components.
        \<exists>row. filter (ccu_matches scope k (fst start)) table1 = [row]
          \<and> ccu_reported_usage row = dict_get (dict_of ?reported) k None
          \<and> ccu_fixed_usage row = dict_get (dict_of ?fixed) k None"
    and frame: "\<forall>k'. k' \<notin> set ?components \<longrightarrow>
        filter (ccu_matches scope k' (fst start)) table1
          = filter (ccu_matches scope k' (fst start)) table"
    using upsert_components_post [OF _ assms(1), of ?components scope "fst start"
        "dict_of ?reported" "dict_of ?fixed"]
    by blast
  have second: "?run table1 = Inr table1"
    using ids1 rows by (rule upsert_components_fixpoint)
  show ?thesis
  proof (intro exI conjI)
    show "calculate_usage_for_scope ud start end scope table = Inr table1"
      unfolding run by (rule first)
    show "calculate_usage_for_scope ud start end scope table1 = Inr table1"
      unfolding run by (rule second)
    show "\<forall>k. k \<in> set (map fst ?reported)
                 \<or> Some k \<in> set (map fst (aggregate_fixed_usage ud start end scope))
               \<longrightarrow> (\<exists>row. filter (ccu_matches scope k (fst start)) table1 = [row]
                      \<and> ccu_reported_usage row = dict_get (dict_of ?reported) k None
                      \<and> ccu_fixed_usage row = dict_get (dict_of ?fixed) k None)"
      using rows unfolding keys by blast
    show "\<forall>k. \<not> (k \<in> set (map fst ?reported)
                    \<or> Some k \<in> set (map fst (aggregate_fixed_usage ud start end scope)))
               \<longrightarrow> filter (ccu_matches scope k (fst start)) table1
                   = filter (ccu_matches scope k (fst start)) table"
      using frame unfolding keys by blast
  qed
qed


text \<open>
  January 2024 for project 1, starting from an empty table: one row with reported usage
  60 and fixed usage 4, and the same single row after the second run.
\<close>

lemma january_first_run:
  "calculate_usage_for_scope rollup_data ((2024, 1, 1), 0) ((2024, 1, 31), 86399)
     (ProjectScope 1) [] = Inr [january_rollup]"
  by (simp add: calculate_usage_for_scope_def aggregate_reported_usage_def
      aggregate_fixed_usage_def rollup_data_def january_report_def monthly_component_def
      component_parent_def resource_project_def group_sum_def sql_sum_def
      List.map_filter_simps plan_period_rows_def null_ge_def null_le_def pop_none_def
      rollup_components_def dict_of_def dict_get_def update_or_create_def
      january_rollup_def ccu_matches_def Let_def)

theorem C7_calculate_usage_idempotent_witness:
  "calculate_usage_for_scope rollup_data ((2024, 1, 1), 0) ((2024, 1, 31), 86399)
     (ProjectScope 1) [] = Inr [january_rollup]
   \<and> calculate_usage_for_scope rollup_data ((2024, 1, 1), 0) ((2024, 1, 31), 86399)
     (ProjectScope 1) [january_rollup] = Inr [january_rollup]"
  using C7_calculate_usage_idempotent [of "[]" "ProjectScope 1" "((2024, 1, 1), 0)"
      rollup_data "((2024, 1, 31), 86399)"]
    january_first_run
  by auto

section \<open>Provisioning dispatch: results\<close>

lemma set_state_erred_always:
  "set_state_erred item = (Inr (), item\<lparr>oi_state := OI_ERRED\<rparr>)"
  by (simp add: set_state_erred_def oi_transition_def)

text \<open>
  C2.  When the processor selected for an order item raises, \<open>process_order_item\<close>
  returns normally.  In the database the processor left, the row of that item is moved to
  Erred and takes the exception's message and traceback; every other order item row and
  every other table, the orders among them, is as the processor left it.
\<close>

theorem C2_processor_error_contained:
  assumes "get_order_item_processor get_processor order_item = Some processor"
    and "processor order_item user db = Raised message traceback db1"
  shows "process_order_item get_processor order_item user db =
           (Inr (),
            db1\<lparr>db_order_items :=
                  map (\<lambda>row. if oi_id row = oi_id order_item
                             then row\<lparr>oi_state := OI_ERRED, oi_error_message := message,
                                      oi_error_traceback := traceback\<rparr>
                             else row)
                    (db_order_items db1)\<rparr>)
         \<and> db_orders (snd (process_order_item get_processor order_item user db))
             = db_orders db1"
proof -
  let ?erred = "order_item\<lparr>oi_error_message := message, oi_error_traceback := traceback,
                            oi_state := OI_ERRED\<rparr>"
  have "process_order_item get_processor order_item user db =
          (Inr (), save_order_item state_error_fields ?erred db1)"
    using assms by (simp add: process_order_item_def set_state_erred_always)
  moreover have "save_order_item state_error_fields ?erred db1 =
      db1\<lparr>db_order_items :=
            map (\<lambda>row. if oi_id row = oi_id order_item
                       then row\<lparr>oi_state := OI_ERRED, oi_error_message := message,
                                oi_error_traceback := traceback\<rparr>
                       else row)
              (db_order_items db1)\<rparr>"
    by (simp add: save_order_item_def update_rows_def state_error_fields_def)
  ultimately show ?thesis by simp
qed

text \<open>
  The create processor of the local offering type raises on the executing item of order
  1: the item ends Erred with the message, the remote item and the order are untouched.
\<close>

theorem C2_processor_error_contained_witness:
  "process_order_item failing_registry (item0\<lparr>oi_state := OI_EXECUTING\<rparr>) 1
     (shop_db\<lparr>db_order_items := [item0\<lparr>oi_state := OI_EXECUTING\<rparr>, remote_item]\<rparr>)
   = (Inr (),
      shop_db\<lparr>db_order_items :=
        [item0\<lparr>oi_state := OI_ERRED, oi_error_message := ''backend is down'',
               oi_error_traceback := ''Traceback: ...''\<rparr>,
         remote_item]\<rparr>)"
proof -
  let ?item = "item0\<lparr>oi_state := OI_EXECUTING\<rparr>"
  let ?db = "shop_db\<lparr>db_order_items := [?item, remote_item]\<rparr>"
  let ?processor = "\<lambda>item user db. Raised ''backend is down'' ''Traceback: ...'' db"
  have "get_order_item_processor failing_registry ?item = Some ?processor"
    by (simp add: get_order_item_processor_def failing_registry_def item0_def)
  moreover have "?processor ?item 1 ?db = Raised ''backend is down'' ''Traceback: ...'' ?db"
    by simp
  ultimately show ?thesis
    using C2_processor_error_contained [of failing_registry ?item ?processor 1 ?db
        "''backend is down''" "''Traceback: ...''" ?db]
    by (simp add: item0_def remote_item_def)
qed

section \<open>Order approval and processing: results\<close>












section \<open>Moving a resource: results\<close>

subsection \<open>The order loop\<close>

lemma other_items_orders_update [simp]:
  "other_items (db\<lparr>db_orders := rows\<rparr>) resource order = other_items db resource order"
  by (simp add: other_items_def)

lemma move_orders_outcome:
  "(\<exists>msg db1. move_orders resource project orders db = (Inl (MoveResourceException msg), db1))
   \<or> (\<exists>db1. move_orders resource project orders db = (Inr (), db1)
         \<and> db_invoices db1 = db_invoices db
         \<and> db_invoice_items db1 = db_invoice_items db
         \<and> (\<forall>order \<in> set orders. other_items db resource order = []))"
proof (induction orders arbitrary: db)
  case Nil
  show ?case by simp
next
  case (Cons order rest)
  show ?case
  proof (cases "other_items db resource order = []")
    case False
    then show ?thesis by simp
  next
    case True
    let ?db1 = "db\<lparr>db_orders := update_rows (\<lambda>row. o_id row = o_id order)
                     (\<lambda>row. row\<lparr>o_project := p_id project\<rparr>) (db_orders db)\<rparr>"
    have run: "move_orders resource project (order # rest) db
        = move_orders resource project rest ?db1"
      using True by simp
    from Cons.IH [of ?db1] show ?thesis
      unfolding run using True by auto
  qed
qed

subsection \<open>Invoices keep their month and state\<close>

lemma find_map_preserving:
  assumes "\<And>x. P (f x) = P x"
  shows "find P (map f xs) = map_option f (find P xs)"
  using assms by (induction xs) auto

lemma find_append_found: "find P xs = Some x \<Longrightarrow> find P (xs @ ys) = Some x"
  by (induction xs) (auto split: if_splits)

lemma update_current_cost_keeps:
  "invoice_month (update_current_cost pk db) pk' = invoice_month db pk'"
  "target_state (update_current_cost pk db) customer ym = target_state db customer ym"
  by (simp_all add: invoice_month_def target_state_def update_current_cost_def update_rows_def
      find_map_preserving option.map_comp comp_def if_distrib cong: if_cong)

lemma invoice_items_update_keeps [simp]:
  "invoice_month (db\<lparr>db_invoice_items := rows\<rparr>) pk = invoice_month db pk"
  "target_state (db\<lparr>db_invoice_items := rows\<rparr>) customer ym = target_state db customer ym"
  by (simp_all add: invoice_month_def target_state_def)

lemma get_or_create_invoice_keeps:
  assumes "get_or_create_invoice customer year month db = (target, db1)"
  shows "invoice_month db pk = Some ym \<Longrightarrow> invoice_month db1 pk = Some ym"
    and "target_state db c ym' = Some s \<Longrightarrow> target_state db1 c ym' = Some s"
    and "target_state db customer (year, month) = Some s \<Longrightarrow> inv_state target = s"
  using assms
  by (auto simp: get_or_create_invoice_def invoice_month_def target_state_def Let_def
      find_append_found split: option.splits)

subsection \<open>The invoice item loop\<close>

lemma move_invoice_items_raises:
  assumes "\<forall>item \<in> set items. \<exists>ym. invoice_month db (ii_invoice item) = Some ym"
    and "\<exists>item \<in> set items. \<exists>ym s. invoice_month db (ii_invoice item) = Some ym
           \<and> target_state db (c_id (p_customer project)) ym = Some s \<and> s \<noteq> INV_PENDING"
  shows "\<exists>msg db1. move_invoice_items project items db
                     = (Inl (MoveResourceException msg), db1)"
  using assms
proof (induction items arbitrary: db)
  case Nil
  then show ?case by simp
next
  case (Cons item rest)
  from Cons.prems(1) obtain start_invoice where
    start: "find (\<lambda>i. inv_id i = ii_invoice item) (db_invoices db) = Some start_invoice"
    by (auto simp: invoice_month_def)
  then have start_month:
    "invoice_month db (ii_invoice item) = Some (inv_year start_invoice, inv_month start_invoice)"
    by (simp add: invoice_month_def)
  obtain target db1 where
    goc: "get_or_create_invoice (c_id (p_customer project)) (inv_year start_invoice)
            (inv_month start_invoice) db = (target, db1)"
    by (cases "get_or_create_invoice (c_id (p_customer project)) (inv_year start_invoice)
            (inv_month start_invoice) db")
  show ?case
  proof (cases "inv_state target = INV_PENDING")
    case False
    then show ?thesis using start goc by simp
  next
    case True
    let ?db2 = "db1\<lparr>db_invoice_items :=
                     update_rows (\<lambda>row. ii_id row = ii_id item)
                       (\<lambda>row. row\<lparr>ii_project := Some (p_id project),
                                  ii_project_uuid := p_uuid project,
                                  ii_project_name := p_name project,
                                  ii_invoice := inv_id target\<rparr>)
                       (db_invoice_items db1)\<rparr>"
    let ?db4 = "update_current_cost (inv_id target)
                  (update_current_cost (inv_id start_invoice) ?db2)"
    have run: "move_invoice_items project (item # rest) db
        = move_invoice_items project rest ?db4"
      using start goc True by simp
    have month_kept: "invoice_month ?db4 pk = Some ym" if "invoice_month db pk = Some ym"
      for pk ym
      using get_or_create_invoice_keeps(1) [OF goc that]
      by (simp add: update_current_cost_keeps)
    have state_kept: "target_state ?db4 c ym = Some s" if "target_state db c ym = Some s"
      for c ym s
      using get_or_create_invoice_keeps(2) [OF goc that]
      by (simp add: update_current_cost_keeps)
    have head_fine: "\<not> (\<exists>ym s. invoice_month db (ii_invoice item) = Some ym
           \<and> target_state db (c_id (p_customer project)) ym = Some s \<and> s \<noteq> INV_PENDING)"
    proof
      assume "\<exists>ym s. invoice_month db (ii_invoice item) = Some ym
           \<and> target_state db (c_id (p_customer project)) ym = Some s \<and> s \<noteq> INV_PENDING"
      then obtain s where
        "target_state db (c_id (p_customer project))
           (inv_year start_invoice, inv_month start_invoice) = Some s"
        and "s \<noteq> INV_PENDING"
        using start_month by auto
      with get_or_create_invoice_keeps(3) [OF goc] True show False by blast
    qed
    have "\<forall>item \<in> set rest. \<exists>ym. invoice_month ?db4 (ii_invoice item) = Some ym"
      using Cons.prems(1) month_kept by (metis list.set_intros(2))
    moreover have "\<exists>item \<in> set rest. \<exists>ym s. invoice_month ?db4 (ii_invoice item) = Some ym
           \<and> target_state ?db4 (c_id (p_customer project)) ym = Some s \<and> s \<noteq> INV_PENDING"
    proof -
      from Cons.prems(2) head_fine obtain bad ym s where
        "bad \<in> set rest" "invoice_month db (ii_invoice bad) = Some ym"
        "target_state db (c_id (p_customer project)) ym = Some s" "s \<noteq> INV_PENDING"
        by auto
      then show ?thesis
        using month_kept state_kept by blast
    qed
    ultimately show ?thesis
      unfolding run by (rule Cons.IH)
  qed
qed


subsection \<open>The whole move\<close>

lemma move_offerings_keeps:
  "db_orders (move_offerings project settings db) = db_orders db"
  "db_order_items (move_offerings project settings db) = db_order_items db"
  "db_invoices (move_offerings project settings db) = db_invoices db"
  "db_invoice_items (move_offerings project settings db) = db_invoice_items db"
  by (induction settings arbitrary: db) simp_all

lemma relocated_keeps:
  "db_orders (relocated resource project db) = db_orders db"
  "db_order_items (relocated resource project db) = db_order_items db"
  "db_invoices (relocated resource project db) = db_invoices db"
  "db_invoice_items (relocated resource project db) = db_invoice_items db"
  by (simp_all add: relocated_def Let_def move_offerings_keeps split: option.splits)

lemma move_resource_body_unblocked:
  assumes "\<not> c_blocked (p_customer project)"
  shows "move_resource_body resource project db =
     (let db2 = relocated resource project db;
          order_ids =
            map oi_order
              (filter (\<lambda>item. map_option fst (oi_resource item) = Some (r_id resource))
                 (db_order_items db2))
      in (case move_orders resource project
                (filter (\<lambda>order. o_id order \<in> set order_ids) (db_orders db2)) db2 of
            (Inl e, db3) \<Rightarrow> (Inl e, db3)
          | (Inr done, db3) \<Rightarrow>
              move_invoice_items project
                (filter (\<lambda>item. ii_resource item = Some (r_id resource)
                               \<and> on_pending_invoice db3 item
                               \<and> ii_project item = Some (r_project resource))
                   (db_invoice_items db3))
                db3))"
  using assms by (simp add: move_resource_body_def relocated_def Let_def)

lemma other_items_relocated:
  "other_items (relocated resource project db) resource order = other_items db resource order"
  by (simp add: other_items_def relocated_keeps)

lemma body_raises_move_exception:
  assumes unblocked: "\<not> c_blocked (p_customer project)"
    and cond: "shared_order db resource \<or> target_invoice_not_pending db resource project"
  shows "\<exists>msg db1. move_resource_body resource project db
                     = (Inl (MoveResourceException msg), db1)"
proof -
  let ?db2 = "relocated resource project db"
  let ?order_ids = "map oi_order
      (filter (\<lambda>item. map_option fst (oi_resource item) = Some (r_id resource))
         (db_order_items ?db2))"
  let ?orders = "filter (\<lambda>order. o_id order \<in> set ?order_ids) (db_orders ?db2)"
  note body = move_resource_body_unblocked [OF unblocked, of resource db, unfolded Let_def]
  from move_orders_outcome [of resource project ?orders ?db2]
  consider (raised) msg db3 where
      "move_orders resource project ?orders ?db2 = (Inl (MoveResourceException msg), db3)"
    | (moved) db3 where "move_orders resource project ?orders ?db2 = (Inr (), db3)"
      "db_invoices db3 = db_invoices db" "db_invoice_items db3 = db_invoice_items db"
      "\<forall>order \<in> set ?orders. other_items db resource order = []"
    by (auto simp: relocated_keeps other_items_relocated)
  then show ?thesis
  proof cases
    case raised
    then show ?thesis unfolding body by simp
  next
    case moved
    have not_shared: "\<not> shared_order db resource"
    proof
      assume "shared_order db resource"
      then obtain order item other where
        order: "order \<in> set (db_orders db)"
        and item: "item \<in> set (db_order_items db)" "oi_order item = o_id order"
          "map_option fst (oi_resource item) = Some (r_id resource)"
        and other: "other \<in> set (db_order_items db)" "oi_order other = o_id order"
          "map_option fst (oi_resource other) \<noteq> Some (r_id resource)"
        unfolding shared_order_def by blast
      from item have "o_id order \<in> set ?order_ids"
        by (force simp: relocated_keeps)
      with order have "order \<in> set ?orders"
        by (simp add: relocated_keeps)
      with moved(4) have "other_items db resource order = []" by blast
      moreover from other have "other \<in> set (other_items db resource order)"
        by (simp add: other_items_def)
      ultimately show False by simp
    qed
    with cond have "target_invoice_not_pending db resource project" by blast
    then obtain bad start_invoice target_invoice where
      bad: "bad \<in> set (db_invoice_items db)" "ii_resource bad = Some (r_id resource)"
        "ii_project bad = Some (r_project resource)"
      and start: "find (\<lambda>i. inv_id i = ii_invoice bad) (db_invoices db) = Some start_invoice"
        "inv_state start_invoice = INV_PENDING"
      and target: "find (\<lambda>i. inv_customer i = c_id (p_customer project)
                     \<and> inv_year i = inv_year start_invoice
                     \<and> inv_month i = inv_month start_invoice)
             (db_invoices db) = Some target_invoice"
        "inv_state target_invoice \<noteq> INV_PENDING"
      unfolding target_invoice_not_pending_def by blast
    let ?items = "filter (\<lambda>item. ii_resource item = Some (r_id resource)
                               \<and> on_pending_invoice db3 item
                               \<and> ii_project item = Some (r_project resource))
                   (db_invoice_items db3)"
    have "\<forall>item \<in> set ?items. \<exists>ym. invoice_month db3 (ii_invoice item) = Some ym"
      by (auto simp: on_pending_invoice_def invoice_month_def split: option.splits)
    moreover have "bad \<in> set ?items"
      using bad start moved(2,3) by (simp add: on_pending_invoice_def)
    moreover have "invoice_month db3 (ii_invoice bad)
        = Some (inv_year start_invoice, inv_month start_invoice)"
      using start moved(2) by (simp add: invoice_month_def)
    moreover have "target_state db3 (c_id (p_customer project))
        (inv_year start_invoice, inv_month start_invoice) = Some (inv_state target_invoice)"
      using target moved(2) by (simp add: target_state_def)
    ultimately have "\<exists>msg db1. move_invoice_items project ?items db3
        = (Inl (MoveResourceException msg), db1)"
      using target(2) by (intro move_invoice_items_raises) blast+
    then show ?thesis
      unfolding body using moved(1) by simp
  qed
qed

text \<open>
  C4 (amended).  \<open>move_resource\<close> is all-or-nothing: whenever it raises, the database
  is the one it started from.  When the new project's customer is blocked it raises a
  validation error.  When the customer is not blocked and an order with an item for the
  resource also has an item that is not for it, or an item of the resource on a pending
  invoice of its project would go to an existing invoice that is not pending, it raises
  \<open>MoveResourceException\<close>.
\<close>

theorem C4_move_resource_all_or_nothing:
  "(\<forall>e db1. move_resource resource project db = (Inl e, db1) \<longrightarrow> db1 = db)
   \<and> (c_blocked (p_customer project) \<longrightarrow>
        move_resource resource project db
          = (Inl (ValidationError ''New customer must be not blocked''), db))
   \<and> (\<not> c_blocked (p_customer project)
        \<and> (shared_order db resource \<or> target_invoice_not_pending db resource project)
        \<longrightarrow> (\<exists>msg. move_resource resource project db
                    = (Inl (MoveResourceException msg), db)))"
proof (intro conjI allI impI)
  fix e db1
  assume "move_resource resource project db = (Inl e, db1)"
  then show "db1 = db"
    by (auto simp: move_resource_def split: prod.splits sum.splits)
next
  assume "c_blocked (p_customer project)"
  then show "move_resource resource project db
      = (Inl (ValidationError ''New customer must be not blocked''), db)"
    by (simp add: move_resource_def move_resource_body_def)
next
  assume "\<not> c_blocked (p_customer project)
        \<and> (shared_order db resource \<or> target_invoice_not_pending db resource project)"
  then obtain msg db1 where
    "move_resource_body resource project db = (Inl (MoveResourceException msg), db1)"
    using body_raises_move_exception by blast
  then show "\<exists>msg. move_resource resource project db
      = (Inl (MoveResourceException msg), db)"
    by (simp add: move_resource_def)
qed

lemma shared_order_example: "shared_order shared_order_db moved_resource"
  by (simp add: shared_order_def shared_order_db_def empty_db_def order1_def item0_def
      moved_resource_def)

lemma paid_target_example: "target_invoice_not_pending paid_target_db moved_resource new_project"
  by (simp add: target_invoice_not_pending_def paid_target_db_def empty_db_def
      usage_item_def january_invoice_def moved_resource_def new_project_def)

text \<open>
  C4 (as stated, refuted).  The claim says that a move with a shared order raises
  \<open>MoveResourceException\<close>, as distinct from a validation error.  With a shared order
  and a new project whose customer is blocked, the move raises the validation error.
\<close>

theorem C4_blocked_customer_counterexample:
  "shared_order shared_order_db moved_resource
   \<and> move_resource moved_resource blocked_project shared_order_db
       = (Inl (ValidationError ''New customer must be not blocked''), shared_order_db)"
  using shared_order_example
  by (simp add: move_resource_def move_resource_body_def blocked_project_def)

text \<open>
  With an unblocked customer both example databases make the move raise
  \<open>MoveResourceException\<close> and stay as they were.
\<close>

theorem C4_move_resource_all_or_nothing_witness:
  "(\<exists>msg. move_resource moved_resource new_project shared_order_db
            = (Inl (MoveResourceException msg), shared_order_db))
   \<and> (\<exists>msg. move_resource moved_resource new_project paid_target_db
            = (Inl (MoveResourceException msg), paid_target_db))"
  using C4_move_resource_all_or_nothing [of moved_resource new_project shared_order_db]
    C4_move_resource_all_or_nothing [of moved_resource new_project paid_target_db]
    shared_order_example paid_target_example
  by (simp add: new_project_def)


end
